theory Spec2Isabelle
  imports Main "HOL-Library.Word"
begin

section \<open>The installer's setup program (chrome/installer/setup/setup\_main.cc)\<close>

text \<open>
  The functions of \<^verbatim>\<open>setup_main.cc\<close> are straight-line code over calls into the
  installer's utility libraries and the operating system. Each function is
  embedded as a HOL function that threads the list of the calls made so far
  (the \<^emph>\<open>trace\<close>) through its body, in the order in which the C++ makes them.
  What a call answers is not fixed by this file; it is read from an environment
  record, and every answer may depend on the whole trace up to the call, so that
  a deletion may change what a later existence test says. Logging, the
  conversions between the string and path types and the accessor of the
  distribution singleton leave no entry in the trace.
\<close>

subsection \<open>Data\<close>

type_synonym wstring = string
type_synonym DWORD = "32 word"

text \<open>
  \<^verbatim>\<open>installer::Version\<close>: the spec's data model describes it as an ordered tuple of
  non-negative integers.
\<close>

type_synonym Version = "nat list"

text \<open>
  \<^verbatim>\<open>installer_util::InstallStatus\<close>. The enumeration is declared in
  \<^verbatim>\<open>util_constants.h\<close>; the constructors below are the enumerators that
  \<^verbatim>\<open>setup_main.cc\<close> names, and \<open>OTHER_STATUS\<close> stands for the remaining ones, which
  a callee may return.
\<close>

datatype InstallStatus =
    FIRST_INSTALL_SUCCESS
  | NEW_VERSION_UPDATED
  | EXISTING_VERSION_LAUNCHED
  | HIGHER_VERSION_EXISTS
  | USER_LEVEL_INSTALL_EXISTS
  | SYSTEM_LEVEL_INSTALL_EXISTS
  | INSTALL_FAILED
  | SETUP_PATCH_FAILED
  | OS_NOT_SUPPORTED
  | OS_ERROR
  | TEMP_DIR_FAILED
  | UNCOMPRESSION_FAILED
  | INVALID_ARCHIVE
  | INSUFFICIENT_RIGHTS
  | CHROME_NOT_INSTALLED
  | UNKNOWN_STATUS
  | RENAME_SUCCESSFUL
  | RENAME_FAILED
  | EULA_REJECTED
  | EULA_ACCEPTED
  | EULA_ACCEPTED_OPT_IN
  | INSTALL_DIR_IN_USE
  | UNINSTALL_REQUIRES_REBOOT
  | IN_USE_UPDATED
  | SAME_VERSION_REPAIR_FAILED
  | REENTRY_SYS_UPDATE
  | SXS_OPTION_NOT_SUPPORTED
  | OTHER_STATUS nat

text \<open>
  The message identifiers of \<^verbatim>\<open>installer_util_strings.h\<close> that the install path
  passes to \<^verbatim>\<open>WriteInstallerResult\<close>; \<open>ID_ZERO\<close> is the literal \<^verbatim>\<open>0\<close>.
\<close>

datatype string_id =
    ID_ZERO
  | IDS_INSTALL_OS_ERROR_BASE
  | IDS_INSTALL_USER_LEVEL_EXISTS_BASE
  | IDS_INSTALL_SYSTEM_LEVEL_EXISTS_BASE
  | IDS_INSTALL_DIR_IN_USE_BASE
  | IDS_INSTALL_TEMP_DIR_FAILED_BASE
  | IDS_INSTALL_UNCOMPRESSION_FAILED_BASE
  | IDS_INSTALL_INVALID_ARCHIVE_BASE
  | IDS_INSTALL_HIGHER_VERSION_BASE
  | IDS_INSTALL_FAILED_BASE
  | IDS_SAME_VERSION_REPAIR_FAILED_BASE

datatype HKEY = HKEY_LOCAL_MACHINE | HKEY_CURRENT_USER

text \<open>
  \<^verbatim>\<open>WorkItem::CopyOverWriteOption\<close> (declared in \<^verbatim>\<open>work_item.h\<close>); the rename
  transaction uses \<open>IF_DIFFERENT\<close>.
\<close>

datatype CopyOverWriteOption = ALWAYS | NEVER | IF_DIFFERENT

text \<open>The work items that \<^verbatim>\<open>WorkItemList\<close>'s \<^verbatim>\<open>Add...WorkItem\<close> methods append.\<close>

datatype WorkItem =
    DeleteTreeWorkItem wstring wstring
  | CopyTreeWorkItem wstring wstring wstring CopyOverWriteOption wstring
  | DeleteRegValueWorkItem HKEY wstring wstring bool

text \<open>
  The command line and the master preferences are containers of the base
  library, modelled as the data the install path reads from them: the program
  path, the table of the switches that carry a value, and the table of the
  boolean distribution preferences. \<^verbatim>\<open>HasSwitch\<close> tests a key of the table and
  \<^verbatim>\<open>GetSwitchValue\<close> looks it up, with the empty string for a missing switch. A
  preference that is absent (or a null dictionary) is a key without a binding.
\<close>

datatype switch = kInstallArchive | kInstallerData

record CommandLine =
  program :: wstring
  switches :: "(switch \<times> wstring) list"

definition HasSwitch :: "CommandLine \<Rightarrow> switch \<Rightarrow> bool" where
  "HasSwitch cmd_line sw = (map_of (switches cmd_line) sw \<noteq> None)"

definition GetSwitchValue :: "CommandLine \<Rightarrow> switch \<Rightarrow> wstring" where
  "GetSwitchValue cmd_line sw =
     (case map_of (switches cmd_line) sw of None \<Rightarrow> [] | Some v \<Rightarrow> v)"

datatype master_preference = kSystemLevel | kDoNotRegisterForUpdateLaunch | kDoNotLaunchChrome

type_synonym DictionaryValue = "(master_preference \<times> bool) list"

text \<open>
  \<^verbatim>\<open>GetDistroBooleanPreference(prefs, name, &value)\<close> is the lookup in the
  preference table. The function gives the value of the out parameter after the
  call from its value before: a missing preference leaves it as it was, which is
  why lines 219, 315 and 328 initialise it to \<^verbatim>\<open>false\<close> and ignore the returned
  flag.
\<close>

definition GetDistroBooleanPreference :: "DictionaryValue \<Rightarrow> master_preference \<Rightarrow> bool \<Rightarrow> bool" where
  "GetDistroBooleanPreference prefs name val =
     (case map_of prefs name of None \<Rightarrow> val | Some b \<Rightarrow> b)"

subsection \<open>Calls and the environment\<close>

text \<open>One constructor per function of a collaborator that the code calls, with the arguments.\<close>

datatype call =
    Call_GetChromeVersion bool
  | Call_GetChromeInstallPath bool
  | Call_PathExists wstring
  | Call_Delete wstring bool
  | Call_CreateNewTempDirectory wstring
  | Call_LzmaUtil_UnPackArchive wstring wstring
  | Call_ApplyDiffPatch wstring wstring wstring
  | Call_GetVersionFromDir wstring
  | Call_InstallOrUpdateChrome wstring wstring wstring wstring DictionaryValue Version "Version option"
  | Call_WriteInstallerResult bool InstallStatus string_id "wstring option"
  | Call_LaunchApp wstring
  | Call_LaunchChrome bool
  | Call_RemoveLegacyRegistryKeys
  | Call_LaunchUserExperiment InstallStatus "Version option" bool
  | Call_ScheduleDirectoryForDeletion wstring
  | Call_UpdateDiffInstallStatus bool bool InstallStatus
  | Call_CreateWorkItemList
  | Call_AddWorkItem WorkItem
  | Call_Do
  | Call_Rollback

type_synonym trace = "call list"

text \<open>
  The environment: what each call that returns something answers after a given
  trace, the pure helpers of \<^verbatim>\<open>file_util\<close>, and the constants of
  \<^verbatim>\<open>util_constants\<close>, \<^verbatim>\<open>setup_constants\<close>, \<^verbatim>\<open>google_update_constants\<close> and
  \<^verbatim>\<open>chrome_switches\<close>, none of which this file defines. \<open>status_value\<close> is the
  integer value of an enumerator, as the conversion of an \<^verbatim>\<open>InstallStatus\<close> to
  \<^verbatim>\<open>DWORD\<close> yields it.
\<close>

record constants =
  kChromeExe :: wstring
  kChromeOldExe :: wstring
  kChromeNewExe :: wstring
  kChromeArchive :: wstring
  kChromeCompressedArchive :: wstring
  kInstallerDir :: wstring
  kInstallSourceDir :: wstring
  kInstallSourceChromeDir :: wstring
  kRegOldVersionField :: wstring
  kRegRenameCmdField :: wstring
  kFirstRun :: wstring
  status_value :: "InstallStatus \<Rightarrow> DWORD"

record env =
  K :: constants
  AppendToPath :: "wstring \<Rightarrow> wstring \<Rightarrow> wstring"
  GetDirectoryFromPath :: "wstring \<Rightarrow> wstring"
  GetVersionKey :: wstring
  GetString :: "Version \<Rightarrow> wstring"
  GetChromeVersion :: "trace \<Rightarrow> bool \<Rightarrow> Version option"
  GetChromeInstallPath :: "trace \<Rightarrow> bool \<Rightarrow> wstring"
  PathExists :: "trace \<Rightarrow> wstring \<Rightarrow> bool"
  Delete :: "trace \<Rightarrow> wstring \<Rightarrow> bool \<Rightarrow> bool"
  CreateNewTempDirectory :: "trace \<Rightarrow> wstring \<Rightarrow> wstring option"
  LzmaUtil_UnPackArchive :: "trace \<Rightarrow> wstring \<Rightarrow> wstring \<Rightarrow> DWORD \<times> wstring"
  ApplyDiffPatch :: "trace \<Rightarrow> wstring \<Rightarrow> wstring \<Rightarrow> wstring \<Rightarrow> DWORD"
  GetVersionFromDir :: "trace \<Rightarrow> wstring \<Rightarrow> Version option"
  InstallOrUpdateChrome ::
    "trace \<Rightarrow> wstring \<Rightarrow> wstring \<Rightarrow> wstring \<Rightarrow> wstring \<Rightarrow> DictionaryValue \<Rightarrow> Version \<Rightarrow>
     Version option \<Rightarrow> InstallStatus"
  Do :: "trace \<Rightarrow> bool"

text \<open>\<^verbatim>\<open>NO_ERROR\<close> of the Windows headers.\<close>

definition NO_ERROR :: DWORD where
  "NO_ERROR = 0"

subsection \<open>RenameChromeExecutables\<close>

text \<open>
  Lines 106 to 147. The first work item is added before the temporary directory
  is asked for; when the directory cannot be created the function returns at
  once.
\<close>

definition RenameChromeExecutables :: "env \<Rightarrow> bool \<Rightarrow> trace \<Rightarrow> InstallStatus \<times> trace" where
  "RenameChromeExecutables E system_install h0 =
    (let chrome_path = GetChromeInstallPath E h0 system_install;
         h1 = h0 @ [Call_GetChromeInstallPath system_install];
         chrome_exe = AppendToPath E chrome_path (kChromeExe (K E));
         chrome_old_exe = AppendToPath E chrome_path (kChromeOldExe (K E));
         chrome_new_exe = AppendToPath E chrome_path (kChromeNewExe (K E));
         h2 = h1 @ [Call_CreateWorkItemList];
         h3 = h2 @ [Call_AddWorkItem (DeleteTreeWorkItem chrome_old_exe [])];
         created = CreateNewTempDirectory E h3 ''chrome_'';
         h4 = h3 @ [Call_CreateNewTempDirectory ''chrome_'']
     in case created of
          None \<Rightarrow> (RENAME_FAILED, h4)
        | Some temp_path \<Rightarrow>
           (let h5 = h4 @ [Call_AddWorkItem
                             (CopyTreeWorkItem chrome_new_exe chrome_exe temp_path IF_DIFFERENT [])];
                reg_root = (if system_install then HKEY_LOCAL_MACHINE else HKEY_CURRENT_USER);
                h6 = h5 @ [Call_AddWorkItem
                             (DeleteRegValueWorkItem reg_root (GetVersionKey E)
                                (kRegOldVersionField (K E)) True)];
                h7 = h6 @ [Call_AddWorkItem (DeleteTreeWorkItem chrome_new_exe [])];
                h8 = h7 @ [Call_AddWorkItem
                             (DeleteRegValueWorkItem reg_root (GetVersionKey E)
                                (kRegRenameCmdField (K E)) True)];
                done = Do E h8;
                h9 = h8 @ [Call_Do];
                (ret, h10) = (if \<not> done then (RENAME_FAILED, h9 @ [Call_Rollback])
                              else (RENAME_SUCCESSFUL, h9));
                h11 = h10 @ [Call_Delete temp_path True]
            in (ret, h11)))"

text \<open>The work items that a trace has added to the list, oldest first.\<close>

fun items_added :: "trace \<Rightarrow> WorkItem list" where
  "items_added [] = []"
| "items_added (Call_AddWorkItem w # h) = w # items_added h"
| "items_added (c # h) = items_added h"

text \<open>
  The work list as the spec's section 4.5 words it, in its five steps, for an
  install directory \<open>chrome_path\<close> and a temporary directory \<open>temp_path\<close>.
\<close>

definition rename_work_list :: "env \<Rightarrow> bool \<Rightarrow> wstring \<Rightarrow> wstring \<Rightarrow> WorkItem list" where
  "rename_work_list E system_install chrome_path temp_path =
     (let chrome_exe = AppendToPath E chrome_path (kChromeExe (K E));
          chrome_old_exe = AppendToPath E chrome_path (kChromeOldExe (K E));
          chrome_new_exe = AppendToPath E chrome_path (kChromeNewExe (K E));
          reg_root = (if system_install then HKEY_LOCAL_MACHINE else HKEY_CURRENT_USER)
      in [DeleteTreeWorkItem chrome_old_exe [],
          CopyTreeWorkItem chrome_new_exe chrome_exe temp_path IF_DIFFERENT [],
          DeleteRegValueWorkItem reg_root (GetVersionKey E) (kRegOldVersionField (K E)) True,
          DeleteTreeWorkItem chrome_new_exe [],
          DeleteRegValueWorkItem reg_root (GetVersionKey E) (kRegRenameCmdField (K E)) True])"

text \<open>The trace at the moment line 119 asks for the temporary directory.\<close>

definition rename_before_temp :: "env \<Rightarrow> bool \<Rightarrow> trace \<Rightarrow> trace" where
  "rename_before_temp E system_install h0 =
     h0 @ [Call_GetChromeInstallPath system_install, Call_CreateWorkItemList,
           Call_AddWorkItem (DeleteTreeWorkItem
             (AppendToPath E (GetChromeInstallPath E h0 system_install) (kChromeOldExe (K E))) [])]"

text \<open>The trace at the moment line 140 executes the list.\<close>

definition rename_before_Do :: "env \<Rightarrow> bool \<Rightarrow> trace \<Rightarrow> wstring \<Rightarrow> trace" where
  "rename_before_Do E system_install h0 temp_path =
     rename_before_temp E system_install h0 @ Call_CreateNewTempDirectory ''chrome_'' #
     map Call_AddWorkItem
       (tl (rename_work_list E system_install (GetChromeInstallPath E h0 system_install) temp_path))"

subsection \<open>CheckPreInstallConditions\<close>

text \<open>
  Lines 149 to 215. The result is the returned boolean and the value of the
  reference parameter \<^verbatim>\<open>status\<close> at the return.
\<close>

definition quote :: wstring where
  "quote = [CHR 0x22]"

definition CheckPreInstallConditions ::
  "env \<Rightarrow> Version option \<Rightarrow> bool \<Rightarrow> InstallStatus \<Rightarrow> trace \<Rightarrow> (bool \<times> InstallStatus) \<times> trace" where
  "CheckPreInstallConditions E installed_version system_install status h0 =
    (let is_first_install = (installed_version = None);
         chrome_version = GetChromeVersion E h0 (\<not> system_install);
         h1 = h0 @ [Call_GetChromeVersion (\<not> system_install)]
     in case chrome_version of
          Some v \<Rightarrow>
            if \<not> system_install \<and> is_first_install then
              (let chrome_exe = GetChromeInstallPath E h1 (\<not> system_install);
                   h2 = h1 @ [Call_GetChromeInstallPath (\<not> system_install)]
               in if chrome_exe = [] then
                    ((False, OS_ERROR),
                     h2 @ [Call_WriteInstallerResult system_install OS_ERROR
                             IDS_INSTALL_OS_ERROR_BASE None])
                  else
                    (let chrome_exe' = AppendToPath E chrome_exe (kChromeExe (K E));
                         chrome_exe'' = quote @ chrome_exe' @ quote @ '' --'' @ kFirstRun (K E);
                         h3 = h2 @ [Call_WriteInstallerResult system_install
                                      EXISTING_VERSION_LAUNCHED ID_ZERO None];
                         h4 = h3 @ [Call_LaunchApp chrome_exe'']
                     in ((False, EXISTING_VERSION_LAUNCHED), h4)))
            else
              (let status' = (if system_install then USER_LEVEL_INSTALL_EXISTS
                              else SYSTEM_LEVEL_INSTALL_EXISTS);
                   str_id = (if system_install then IDS_INSTALL_USER_LEVEL_EXISTS_BASE
                             else IDS_INSTALL_SYSTEM_LEVEL_EXISTS_BASE)
               in ((False, status'),
                   h1 @ [Call_WriteInstallerResult system_install status' str_id None]))
        | None \<Rightarrow>
            if is_first_install then
              (let install_path = GetChromeInstallPath E h1 system_install;
                   h2 = h1 @ [Call_GetChromeInstallPath system_install];
                   exists = PathExists E h2 install_path;
                   h3 = h2 @ [Call_PathExists install_path]
               in if exists then
                    (let deleted = Delete E h3 install_path True;
                         h4 = h3 @ [Call_Delete install_path True]
                     in if \<not> deleted then
                          ((False, INSTALL_DIR_IN_USE),
                           h4 @ [Call_WriteInstallerResult system_install INSTALL_DIR_IN_USE
                                   IDS_INSTALL_DIR_IN_USE_BASE None])
                        else ((True, status), h4))
                  else ((True, status), h3))
            else ((True, status), h1))"

subsection \<open>UnPackArchive\<close>

text \<open>
  Lines 57 to 98. The result is the returned \<^verbatim>\<open>DWORD\<close> and the value of the
  reference parameter \<^verbatim>\<open>incremental_install\<close> at the return. The differential
  block (lines 75 to 94) either returns from the function (\<open>Some\<close> of the code) or
  falls through to the final unpack of line 97.
\<close>

definition UnPackArchive ::
  "env \<Rightarrow> wstring \<Rightarrow> bool \<Rightarrow> Version option \<Rightarrow> wstring \<Rightarrow> wstring \<Rightarrow> bool \<Rightarrow> trace \<Rightarrow>
   (DWORD \<times> bool) \<times> trace" where
  "UnPackArchive E archive system_install installed_version temp_path path incremental_install h0 =
    (let (ret, unpacked_file) = LzmaUtil_UnPackArchive E h0 archive temp_path;
         h1 = h0 @ [Call_LzmaUtil_UnPackArchive archive temp_path]
     in if ret \<noteq> NO_ERROR then ((ret, incremental_install), h1)
        else
          (let uncompressed_archive = AppendToPath E temp_path (kChromeArchive (K E));
               exists = PathExists E h1 uncompressed_archive;
               h2 = h1 @ [Call_PathExists uncompressed_archive];
               (returned, incremental_install', h5) =
                 (if \<not> exists then
                    (case installed_version of
                       None \<Rightarrow> (Some (status_value (K E) CHROME_NOT_INSTALLED), True, h2)
                     | Some v \<Rightarrow>
                        (let install_path = GetChromeInstallPath E h2 system_install;
                             h3 = h2 @ [Call_GetChromeInstallPath system_install];
                             existing_archive =
                               AppendToPath E
                                 (AppendToPath E (AppendToPath E install_path (GetString E v))
                                    (kInstallerDir (K E)))
                                 (kChromeArchive (K E));
                             i = ApplyDiffPatch E h3 existing_archive unpacked_file
                                   uncompressed_archive;
                             h4 = h3 @ [Call_ApplyDiffPatch existing_archive unpacked_file
                                          uncompressed_archive]
                         in if i \<noteq> 0 then (Some i, True, h4) else (None, True, h4)))
                  else (None, incremental_install, h2))
           in case returned of
                Some code \<Rightarrow> ((code, incremental_install'), h5)
              | None \<Rightarrow>
                 ((fst (LzmaUtil_UnPackArchive E h5 uncompressed_archive path),
                   incremental_install'),
                  h5 @ [Call_LzmaUtil_UnPackArchive uncompressed_archive path])))"

subsection \<open>Version comparison\<close>

datatype comparison = GREATER | EQUAL | LESS

text \<open>
  Modelled from the spec: \<^verbatim>\<open>installer::Version::IsHigherThan\<close> is defined in
  \<^verbatim>\<open>version.cc\<close>, which is not among the sources. Section 4.3 of the spec gives
  the comparison as a total lexicographic comparison of the integer components,
  the shorter tuple padded with zeros on the right.
\<close>

fun compare :: "Version \<Rightarrow> Version \<Rightarrow> comparison" where
  "compare [] [] = EQUAL"
| "compare [] (y # ys) = (if 0 < y then LESS else compare [] ys)"
| "compare (x # xs) [] = (if 0 < x then GREATER else compare xs [])"
| "compare (x # xs) (y # ys) =
     (if y < x then GREATER else if x < y then LESS else compare xs ys)"

text \<open>
  Modelled from the spec: \<^verbatim>\<open>IsHigherThan\<close> is the strict greater-than of that
  comparison (section 3: a version "supports strict greater-than comparison").
\<close>

definition IsHigherThan :: "Version \<Rightarrow> Version \<Rightarrow> bool" where
  "IsHigherThan this other = (compare this other = GREATER)"

subsection \<open>InstallChrome\<close>

text \<open>
  Lines 287 to 337, the branch that installs: \<^verbatim>\<open>installer_version\<close> is not null
  here. The result is \<^verbatim>\<open>install_status\<close> at line 338.
\<close>

definition InstallChrome_mutate ::
  "env \<Rightarrow> CommandLine \<Rightarrow> Version option \<Rightarrow> DictionaryValue \<Rightarrow> bool \<Rightarrow> wstring \<Rightarrow> Version \<Rightarrow>
   trace \<Rightarrow> InstallStatus \<times> trace" where
  "InstallChrome_mutate E cmd_line installed_version prefs system_level temp_path
     installer_version h0 =
    (let archive_to_copy = AppendToPath E temp_path (kChromeArchive (K E));
         prefs_source_path = GetSwitchValue cmd_line kInstallerData;
         result = InstallOrUpdateChrome E h0 (program cmd_line) archive_to_copy temp_path
                    prefs_source_path prefs installer_version installed_version;
         h1 = h0 @ [Call_InstallOrUpdateChrome (program cmd_line) archive_to_copy temp_path
                      prefs_source_path prefs installer_version installed_version];
         (install_msg_base, chrome_exe, install_status, h2) =
           (if result = SAME_VERSION_REPAIR_FAILED then
              (IDS_SAME_VERSION_REPAIR_FAILED_BASE, [], result, h1)
            else if result \<noteq> INSTALL_FAILED then
              (let install_path = GetChromeInstallPath E h1 system_level;
                   h1' = h1 @ [Call_GetChromeInstallPath system_level]
               in if install_path = [] then (IDS_INSTALL_OS_ERROR_BASE, [], OS_ERROR, h1')
                  else (ID_ZERO,
                        quote @ AppendToPath E install_path (kChromeExe (K E)) @ quote,
                        result, h1'))
            else (IDS_INSTALL_FAILED_BASE, [], result, h1));
         val = GetDistroBooleanPreference prefs kDoNotRegisterForUpdateLaunch False;
         write_chrome_launch_string = (\<not> val \<and> install_status \<noteq> IN_USE_UPDATED);
         h3 = h2 @ [Call_WriteInstallerResult system_level install_status install_msg_base
                      (if write_chrome_launch_string then Some chrome_exe else None)];
         h4 = (if install_status = FIRST_INSTALL_SUCCESS then
                 (let do_not_launch_chrome =
                        GetDistroBooleanPreference prefs kDoNotLaunchChrome False
                  in if \<not> system_level \<and> \<not> do_not_launch_chrome
                     then h3 @ [Call_LaunchChrome system_level] else h3)
               else if install_status = NEW_VERSION_UPDATED \<or> install_status = IN_USE_UPDATED
               then h3 @ [Call_RemoveLegacyRegistryKeys]
               else h3)
     in (install_status, h4))"

text \<open>
  Lines 266 to 348, the branch taken when \<^verbatim>\<open>UnPackArchive\<close> has returned zero:
  the version of the payload is probed and compared, the install is made, and
  the user experiment is launched. Line 347 passes \<^verbatim>\<open>*installer_version\<close> on
  every path, outside the test of line 272; the call records the version that
  the pointer holds, \<open>None\<close> when it holds none.
\<close>

definition InstallChrome_unpacked ::
  "env \<Rightarrow> CommandLine \<Rightarrow> Version option \<Rightarrow> DictionaryValue \<Rightarrow> bool \<Rightarrow> wstring \<Rightarrow> wstring \<Rightarrow>
   trace \<Rightarrow> InstallStatus \<times> trace" where
  "InstallChrome_unpacked E cmd_line installed_version prefs system_level temp_path
     unpack_path h0 =
    (let src_path = AppendToPath E unpack_path (kInstallSourceChromeDir (K E));
         installer_version = GetVersionFromDir E h0 src_path;
         h1 = h0 @ [Call_GetVersionFromDir src_path];
         (install_status, h2) =
           (case installer_version of
              None \<Rightarrow>
                (INVALID_ARCHIVE,
                 h1 @ [Call_WriteInstallerResult system_level INVALID_ARCHIVE
                         IDS_INSTALL_INVALID_ARCHIVE_BASE None])
            | Some v \<Rightarrow>
                if (case installed_version of None \<Rightarrow> False | Some iv \<Rightarrow> IsHigherThan iv v) then
                  (HIGHER_VERSION_EXISTS,
                   h1 @ [Call_WriteInstallerResult system_level HIGHER_VERSION_EXISTS
                           IDS_INSTALL_HIGHER_VERSION_BASE None])
                else InstallChrome_mutate E cmd_line installed_version prefs system_level
                       temp_path v h1)
     in (install_status,
         h2 @ [Call_LaunchUserExperiment install_status installer_version system_level]))"

text \<open>Lines 351 to 380: the temporary files are deleted and the status is returned.\<close>

definition InstallChrome_cleanup ::
  "env \<Rightarrow> CommandLine \<Rightarrow> bool \<Rightarrow> wstring \<Rightarrow> bool \<Rightarrow> InstallStatus \<Rightarrow> trace \<Rightarrow>
   InstallStatus \<times> trace" where
  "InstallChrome_cleanup E cmd_line system_level temp_path incremental_install install_status h0 =
    (let cleanup_success = Delete E h0 temp_path True;
         h1 = h0 @ [Call_Delete temp_path True];
         (cleanup_success', h2) =
           (if HasSwitch cmd_line kInstallerData then
              (let prefs_path = GetSwitchValue cmd_line kInstallerData
               in (Delete E h1 prefs_path True \<and> cleanup_success,
                   h1 @ [Call_Delete prefs_path True]))
            else (cleanup_success, h1));
         h3 = (if \<not> cleanup_success' then
                 (let h2' = h2 @ [Call_ScheduleDirectoryForDeletion temp_path]
                  in if HasSwitch cmd_line kInstallerData
                     then h2' @ [Call_ScheduleDirectoryForDeletion
                                   (GetSwitchValue cmd_line kInstallerData)]
                     else h2')
               else h2);
         h4 = h3 @ [Call_UpdateDiffInstallStatus system_level incremental_install install_status]
     in (install_status, h4))"

text \<open>Lines 229 to 237: the archive to install.\<close>

definition InstallChrome_archive :: "env \<Rightarrow> CommandLine \<Rightarrow> wstring" where
  "InstallChrome_archive E cmd_line =
    (let archive = AppendToPath E (GetDirectoryFromPath E (program cmd_line))
                     (kChromeCompressedArchive (K E))
     in if HasSwitch cmd_line kInstallArchive then GetSwitchValue cmd_line kInstallArchive
        else archive)"

text \<open>
  Lines 257 to 349: the archive is unpacked and \<^verbatim>\<open>install_status\<close> is decided.
  The result carries \<^verbatim>\<open>incremental_install\<close> as well.
\<close>

definition InstallChrome_decide ::
  "env \<Rightarrow> CommandLine \<Rightarrow> Version option \<Rightarrow> DictionaryValue \<Rightarrow> bool \<Rightarrow> wstring \<Rightarrow> wstring \<Rightarrow>
   wstring \<Rightarrow> trace \<Rightarrow> (InstallStatus \<times> bool) \<times> trace" where
  "InstallChrome_decide E cmd_line installed_version prefs system_level archive temp_path
     unpack_path h0 =
    (let ((ret, incremental_install), h1) =
           UnPackArchive E archive system_level installed_version temp_path unpack_path False h0
     in if ret \<noteq> 0 then
          ((UNCOMPRESSION_FAILED, incremental_install),
           h1 @ [Call_WriteInstallerResult system_level UNCOMPRESSION_FAILED
                   IDS_INSTALL_UNCOMPRESSION_FAILED_BASE None])
        else
          (let (decided, h2) =
                 InstallChrome_unpacked E cmd_line installed_version prefs system_level temp_path
                   unpack_path h1
           in ((decided, incremental_install), h2)))"

text \<open>Lines 217 to 381.\<close>

definition InstallChrome ::
  "env \<Rightarrow> CommandLine \<Rightarrow> Version option \<Rightarrow> DictionaryValue \<Rightarrow> trace \<Rightarrow>
   InstallStatus \<times> trace" where
  "InstallChrome E cmd_line installed_version prefs h0 =
    (let system_level = GetDistroBooleanPreference prefs kSystemLevel False;
         ((ok, install_status), h1) =
           CheckPreInstallConditions E installed_version system_level UNKNOWN_STATUS h0
     in if \<not> ok then (install_status, h1)
        else
          (let archive = InstallChrome_archive E cmd_line;
               created = CreateNewTempDirectory E h1 ''chrome_'';
               h2 = h1 @ [Call_CreateNewTempDirectory ''chrome_'']
           in case created of
                None \<Rightarrow>
                  (TEMP_DIR_FAILED,
                   h2 @ [Call_WriteInstallerResult system_level TEMP_DIR_FAILED
                           IDS_INSTALL_TEMP_DIR_FAILED_BASE None])
              | Some temp_path \<Rightarrow>
                  (let unpack_path = AppendToPath E temp_path (kInstallSourceDir (K E));
                       ((decided, incremental_install), h3) =
                         InstallChrome_decide E cmd_line installed_version prefs system_level
                           archive temp_path unpack_path h2
                   in InstallChrome_cleanup E cmd_line system_level temp_path
                        incremental_install decided h3)))"

subsection \<open>Reading a trace\<close>

text \<open>The calls that a run has appended to the trace \<open>h0\<close> it started from.\<close>

definition new_calls :: "trace \<Rightarrow> trace \<Rightarrow> trace" where
  "new_calls h0 h = drop (length h0) h"

fun writes_result :: "call \<Rightarrow> bool" where
  "writes_result (Call_WriteInstallerResult s st m l) = True"
| "writes_result c = False"

fun probes_version :: "call \<Rightarrow> bool" where
  "probes_version (Call_GetVersionFromDir p) = True"
| "probes_version c = False"

fun mutates_install :: "call \<Rightarrow> bool" where
  "mutates_install (Call_InstallOrUpdateChrome exe archive temp pp prefs v iv) = True"
| "mutates_install c = False"

fun launches :: "call \<Rightarrow> bool" where
  "launches (Call_LaunchChrome s) = True"
| "launches (Call_LaunchApp exe) = True"
| "launches c = False"

fun executes_work_list :: "call \<Rightarrow> bool" where
  "executes_work_list Call_Do = True"
| "executes_work_list Call_Rollback = True"
| "executes_work_list c = False"

fun modifies_files :: "call \<Rightarrow> bool" where
  "modifies_files (Call_Delete p r) = True"
| "modifies_files (Call_CreateNewTempDirectory p) = True"
| "modifies_files (Call_LzmaUtil_UnPackArchive a d) = True"
| "modifies_files (Call_ApplyDiffPatch a p out) = True"
| "modifies_files (Call_InstallOrUpdateChrome exe archive temp pp prefs v iv) = True"
| "modifies_files Call_Do = True"
| "modifies_files Call_Rollback = True"
| "modifies_files c = False"

text \<open>
  The paths that a call deletes, unpacks into, writes a patched file to or
  schedules for deletion.
\<close>

fun writes_to :: "call \<Rightarrow> wstring list" where
  "writes_to (Call_Delete p r) = [p]"
| "writes_to (Call_LzmaUtil_UnPackArchive a d) = [d]"
| "writes_to (Call_ApplyDiffPatch a p out) = [out]"
| "writes_to (Call_ScheduleDirectoryForDeletion p) = [p]"
| "writes_to c = []"

text \<open>
  The calls that change the installation without naming a path: the install
  itself, the removal of registry keys, and the execution or rollback of a work
  list.
\<close>

fun changes_install :: "call \<Rightarrow> bool" where
  "changes_install (Call_InstallOrUpdateChrome exe archive temp pp prefs v iv) = True"
| "changes_install Call_RemoveLegacyRegistryKeys = True"
| "changes_install Call_Do = True"
| "changes_install Call_Rollback = True"
| "changes_install c = False"

text \<open>
  The failures of the unpack phase as the spec's section 4.5 lists them, read
  off the answers of the environment for a call of UnPackArchive at the trace
  \<open>h0\<close>: the initial decompression fails; or the payload is differential and no
  installed version is known; or the patch fails; or the final unpack fails.
\<close>

definition unpack_step_fails ::
  "env \<Rightarrow> wstring \<Rightarrow> bool \<Rightarrow> Version option \<Rightarrow> wstring \<Rightarrow> wstring \<Rightarrow> trace \<Rightarrow> bool" where
  "unpack_step_fails E archive system_install installed_version temp_path path h0 =
    (let (ret, unpacked_file) = LzmaUtil_UnPackArchive E h0 archive temp_path;
         h1 = h0 @ [Call_LzmaUtil_UnPackArchive archive temp_path];
         uncompressed_archive = AppendToPath E temp_path (kChromeArchive (K E));
         differential = (\<not> PathExists E h1 uncompressed_archive);
         h2 = h1 @ [Call_PathExists uncompressed_archive]
     in if ret \<noteq> NO_ERROR then True
        else if differential then
          (case installed_version of
             None \<Rightarrow> True
           | Some v \<Rightarrow>
              (let h3 = h2 @ [Call_GetChromeInstallPath system_install];
                   existing_archive =
                     AppendToPath E
                       (AppendToPath E
                          (AppendToPath E (GetChromeInstallPath E h2 system_install)
                             (GetString E v))
                          (kInstallerDir (K E)))
                       (kChromeArchive (K E));
                   h4 = h3 @ [Call_ApplyDiffPatch existing_archive unpacked_file
                                uncompressed_archive]
               in ApplyDiffPatch E h3 existing_archive unpacked_file uncompressed_archive \<noteq> 0 \<or>
                  fst (LzmaUtil_UnPackArchive E h4 uncompressed_archive path) \<noteq> NO_ERROR))
        else fst (LzmaUtil_UnPackArchive E h2 uncompressed_archive path) \<noteq> NO_ERROR)"

subsection \<open>An example environment\<close>

text \<open>
  A machine on which nothing is installed and every call succeeds; the theorems
  below are evaluated on it and on variants of it. The numbering of the
  statuses and the file names are example values.
\<close>

fun demo_status_value :: "InstallStatus \<Rightarrow> DWORD" where
  "demo_status_value FIRST_INSTALL_SUCCESS = 0"
| "demo_status_value CHROME_NOT_INSTALLED = 15"
| "demo_status_value SXS_OPTION_NOT_SUPPORTED = 33"
| "demo_status_value s = 1"

definition demo_constants :: constants where
  "demo_constants =
     \<lparr>kChromeExe = ''chrome.exe'', kChromeOldExe = ''old_chrome.exe'',
      kChromeNewExe = ''new_chrome.exe'', kChromeArchive = ''chrome.7z'',
      kChromeCompressedArchive = ''chrome.packed.7z'', kInstallerDir = ''Installer'',
      kInstallSourceDir = ''source'', kInstallSourceChromeDir = ''Chrome-bin'',
      kRegOldVersionField = ''opv'', kRegRenameCmdField = ''cmd'', kFirstRun = ''first-run'',
      status_value = demo_status_value\<rparr>"

definition demo_env :: env where
  "demo_env =
     \<lparr>K = demo_constants,
      AppendToPath = (\<lambda>p c. p @ ''/'' @ c),
      GetDirectoryFromPath = (\<lambda>p. ''D:'' ),
      GetVersionKey = ''Software/Chrome'',
      GetString = (\<lambda>v. ''9.0''),
      GetChromeVersion = (\<lambda>h s. None),
      GetChromeInstallPath = (\<lambda>h s. if s then ''C:/Programs/Chrome'' else ''C:/User/Chrome''),
      PathExists = (\<lambda>h p. p = ''T:/chrome_1/chrome.7z''),
      Delete = (\<lambda>h p r. True),
      CreateNewTempDirectory = (\<lambda>h p. Some ''T:/chrome_1''),
      LzmaUtil_UnPackArchive = (\<lambda>h a d. (0, ''T:/chrome_1/chrome.7z'')),
      ApplyDiffPatch = (\<lambda>h a p out. 0),
      GetVersionFromDir = (\<lambda>h p. Some [10, 0]),
      InstallOrUpdateChrome = (\<lambda>h exe a t pp prefs v iv. FIRST_INSTALL_SUCCESS),
      Do = (\<lambda>h. True)\<rparr>"

text \<open>The same machine with version 9.0 installed for all users.\<close>

definition demo_env_system_installed :: env where
  "demo_env_system_installed =
     demo_env\<lparr>GetChromeVersion := (\<lambda>h s. if s then Some [9, 0] else None)\<rparr>"

text \<open>The same machine with version 9.0 installed for the user only.\<close>

definition demo_env_user_installed :: env where
  "demo_env_user_installed =
     demo_env\<lparr>GetChromeVersion := (\<lambda>h s. if s then None else Some [9, 0])\<rparr>"

text \<open>The same machine with a locked directory where the user-level install goes.\<close>

definition demo_env_dir_in_use :: env where
  "demo_env_dir_in_use =
     demo_env\<lparr>PathExists := (\<lambda>h p. p = ''C:/User/Chrome''), Delete := (\<lambda>h p r. False)\<rparr>"

text \<open>The same machine with a payload that does not decompress.\<close>

definition demo_env_corrupt :: env where
  "demo_env_corrupt = demo_env\<lparr>LzmaUtil_UnPackArchive := (\<lambda>h a d. (5, []))\<rparr>"

text \<open>The same machine with a payload that holds a patch and no full archive.\<close>

definition demo_env_patch :: env where
  "demo_env_patch = demo_env\<lparr>PathExists := (\<lambda>h p. False)\<rparr>"

text \<open>The same machine with a patch payload that does not apply.\<close>

definition demo_env_patch_fails :: env where
  "demo_env_patch_fails =
     demo_env\<lparr>PathExists := (\<lambda>h p. False), ApplyDiffPatch := (\<lambda>h a p out. 7)\<rparr>"

text \<open>The same machine with a full archive that does not unpack.\<close>

definition demo_env_unpack_fails :: env where
  "demo_env_unpack_fails =
     demo_env\<lparr>LzmaUtil_UnPackArchive :=
       (\<lambda>h a d. if d = ''T:/chrome_1/source'' then (3, []) else (0, ''T:/chrome_1/chrome.7z''))\<rparr>"

text \<open>
  The same machine with a payload that does not decompress and a leftover
  directory, which can be deleted, where the user-level install goes.
\<close>

definition demo_env_stale_corrupt :: env where
  "demo_env_stale_corrupt =
     demo_env\<lparr>PathExists := (\<lambda>h p. p = ''C:/User/Chrome''),
              LzmaUtil_UnPackArchive := (\<lambda>h a d. (5, []))\<rparr>"

text \<open>The same machine with a payload in which no version directory is found.\<close>

definition demo_env_no_version :: env where
  "demo_env_no_version = demo_env\<lparr>GetVersionFromDir := (\<lambda>h p. None)\<rparr>"

text \<open>The same machine with temporary files that cannot be deleted.\<close>

definition demo_env_locked_temp :: env where
  "demo_env_locked_temp = demo_env\<lparr>Delete := (\<lambda>h p r. False)\<rparr>"

definition demo_cmd_line :: CommandLine where
  "demo_cmd_line = \<lparr>program = ''D:/setup.exe'', switches = []\<rparr>"

definition demo_cmd_line_prefs :: CommandLine where
  "demo_cmd_line_prefs =
     \<lparr>program = ''D:/setup.exe'', switches = [(kInstallerData, ''D:/master_preferences'')]\<rparr>"

section \<open>Properties\<close>

lemmas code_simps =
  InstallChrome_def InstallChrome_decide_def InstallChrome_unpacked_def InstallChrome_mutate_def
  InstallChrome_cleanup_def InstallChrome_archive_def UnPackArchive_def
  CheckPreInstallConditions_def GetDistroBooleanPreference_def HasSwitch_def GetSwitchValue_def
  IsHigherThan_def NO_ERROR_def Let_def

subsection \<open>The rename transaction\<close>

text \<open>
  Claim C1. When the temporary directory is created, RenameChromeExecutables
  builds one work list of five items, in this order: delete the stale backup
  binary, copy the pending new binary over the live binary with the option
  IF\_DIFFERENT, delete the old-version registry value, delete the pending new
  binary, delete the pending-rename registry value. Only then is the list
  executed. If the execution fails, Rollback is called and the status is
  RENAME\_FAILED, otherwise the status is RENAME\_SUCCESSFUL; on both paths the
  last call deletes the temporary directory.
\<close>

theorem RenameChromeExecutables_work_list:
  assumes "CreateNewTempDirectory E (rename_before_temp E sys h0) ''chrome_'' = Some temp_path"
  shows "RenameChromeExecutables E sys h0 =
           (if Do E (rename_before_Do E sys h0 temp_path) then RENAME_SUCCESSFUL else RENAME_FAILED,
            rename_before_Do E sys h0 temp_path @ [Call_Do] @
            (if Do E (rename_before_Do E sys h0 temp_path) then [] else [Call_Rollback]) @
            [Call_Delete temp_path True]) \<and>
         items_added (new_calls h0 (rename_before_Do E sys h0 temp_path)) =
           rename_work_list E sys (GetChromeInstallPath E h0 sys) temp_path"
  using assms
  by (simp add: RenameChromeExecutables_def rename_before_Do_def rename_before_temp_def
        rename_work_list_def new_calls_def Let_def)

theorem RenameChromeExecutables_work_list_witness:
  "CreateNewTempDirectory (demo_env\<lparr>Do := (\<lambda>h. False)\<rparr>)
     (rename_before_temp (demo_env\<lparr>Do := (\<lambda>h. False)\<rparr>) False []) ''chrome_'' =
     Some ''T:/chrome_1'' \<and>
   RenameChromeExecutables (demo_env\<lparr>Do := (\<lambda>h. False)\<rparr>) False [] =
     (RENAME_FAILED,
      [Call_GetChromeInstallPath False, Call_CreateWorkItemList,
       Call_AddWorkItem (DeleteTreeWorkItem ''C:/User/Chrome/old_chrome.exe'' []),
       Call_CreateNewTempDirectory ''chrome_'',
       Call_AddWorkItem (CopyTreeWorkItem ''C:/User/Chrome/new_chrome.exe''
         ''C:/User/Chrome/chrome.exe'' ''T:/chrome_1'' IF_DIFFERENT []),
       Call_AddWorkItem (DeleteRegValueWorkItem HKEY_CURRENT_USER ''Software/Chrome'' ''opv'' True),
       Call_AddWorkItem (DeleteTreeWorkItem ''C:/User/Chrome/new_chrome.exe'' []),
       Call_AddWorkItem (DeleteRegValueWorkItem HKEY_CURRENT_USER ''Software/Chrome'' ''cmd'' True),
       Call_Do, Call_Rollback, Call_Delete ''T:/chrome_1'' True])"
proof -
  have created:
    "CreateNewTempDirectory (demo_env\<lparr>Do := (\<lambda>h. False)\<rparr>)
       (rename_before_temp (demo_env\<lparr>Do := (\<lambda>h. False)\<rparr>) False []) ''chrome_'' =
     Some ''T:/chrome_1''"
    by (simp add: demo_env_def)
  show ?thesis
    using RenameChromeExecutables_work_list [OF created]
    by (simp add: demo_env_def demo_constants_def rename_before_Do_def rename_before_temp_def
          rename_work_list_def Let_def)
qed

text \<open>
  Claim C10, as the code has it. When the temporary directory cannot be
  created, RenameChromeExecutables returns RENAME\_FAILED. At that moment one
  work item, the deletion of the stale backup binary, has already been added to
  the list (line 117 precedes line 119), but the list is neither executed nor
  rolled back and no file is deleted: the calls of the run are the query for the
  install path, the creation of the list, that one addition and the failed
  request for the directory.
\<close>

theorem RenameChromeExecutables_no_temp_directory:
  assumes "CreateNewTempDirectory E (rename_before_temp E sys h0) ''chrome_'' = None"
  shows "RenameChromeExecutables E sys h0 =
           (RENAME_FAILED, rename_before_temp E sys h0 @ [Call_CreateNewTempDirectory ''chrome_'']) \<and>
         new_calls h0 (snd (RenameChromeExecutables E sys h0)) =
           [Call_GetChromeInstallPath sys, Call_CreateWorkItemList,
            Call_AddWorkItem (DeleteTreeWorkItem
              (AppendToPath E (GetChromeInstallPath E h0 sys) (kChromeOldExe (K E))) []),
            Call_CreateNewTempDirectory ''chrome_''] \<and>
         filter executes_work_list (new_calls h0 (snd (RenameChromeExecutables E sys h0))) = []"
  using assms
  by (simp add: RenameChromeExecutables_def rename_before_temp_def new_calls_def Let_def)

theorem RenameChromeExecutables_no_temp_directory_witness:
  "CreateNewTempDirectory (demo_env\<lparr>CreateNewTempDirectory := (\<lambda>h p. None)\<rparr>)
     (rename_before_temp (demo_env\<lparr>CreateNewTempDirectory := (\<lambda>h p. None)\<rparr>) True [])
     ''chrome_'' = None \<and>
   RenameChromeExecutables (demo_env\<lparr>CreateNewTempDirectory := (\<lambda>h p. None)\<rparr>) True [] =
     (RENAME_FAILED,
      [Call_GetChromeInstallPath True, Call_CreateWorkItemList,
       Call_AddWorkItem (DeleteTreeWorkItem ''C:/Programs/Chrome/old_chrome.exe'' []),
       Call_CreateNewTempDirectory ''chrome_''])"
proof -
  have failed:
    "CreateNewTempDirectory (demo_env\<lparr>CreateNewTempDirectory := (\<lambda>h p. None)\<rparr>)
       (rename_before_temp (demo_env\<lparr>CreateNewTempDirectory := (\<lambda>h p. None)\<rparr>) True [])
       ''chrome_'' = None"
    by simp
  show ?thesis
    using RenameChromeExecutables_no_temp_directory [OF failed]
    by (simp add: demo_env_def demo_constants_def rename_before_temp_def)
qed

text \<open>
  Claim C10, as it is worded, says that the function returns before any work
  item is added. On the example machine with a failing temporary directory the
  list holds one item when the function returns.
\<close>

theorem RenameChromeExecutables_item_added_before_return:
  "CreateNewTempDirectory (demo_env\<lparr>CreateNewTempDirectory := (\<lambda>h p. None)\<rparr>)
     (rename_before_temp (demo_env\<lparr>CreateNewTempDirectory := (\<lambda>h p. None)\<rparr>) False [])
     ''chrome_'' = None \<and>
   fst (RenameChromeExecutables (demo_env\<lparr>CreateNewTempDirectory := (\<lambda>h p. None)\<rparr>) False [])
     = RENAME_FAILED \<and>
   items_added (snd (RenameChromeExecutables
                       (demo_env\<lparr>CreateNewTempDirectory := (\<lambda>h p. None)\<rparr>) False [])) =
     [DeleteTreeWorkItem ''C:/User/Chrome/old_chrome.exe'' []] \<and>
   items_added (snd (RenameChromeExecutables
                       (demo_env\<lparr>CreateNewTempDirectory := (\<lambda>h p. None)\<rparr>) False [])) \<noteq> []"
  by (simp add: RenameChromeExecutables_def demo_env_def demo_constants_def Let_def)

subsection \<open>Preflight\<close>

text \<open>
  Claim C5, as the code has it. Let an installation exist at the opposite scope.
  If this is a first-time user-level install and the path of the system-level
  install can be constructed, preflight reports EXISTING\_VERSION\_LAUNCHED with
  no message, launches the system-level chrome.exe with the first-run switch and
  returns false. If that path comes back empty, preflight reports OS\_ERROR and
  returns false without launching anything. In every other case preflight
  reports USER\_LEVEL\_INSTALL\_EXISTS (system-level run) or
  SYSTEM\_LEVEL\_INSTALL\_EXISTS (user-level run) through WriteInstallerResult,
  with the message of that status, as its only call after the version query,
  returns false and launches nothing. In no case does preflight make a call
  that modifies files.
\<close>

theorem CheckPreInstallConditions_other_scope:
  assumes "GetChromeVersion E h0 (\<not> sys) = Some v"
    and "h1 = h0 @ [Call_GetChromeVersion (\<not> sys)]"
    and "r = CheckPreInstallConditions E installed sys status h0"
  shows "(\<not> sys \<and> installed = None \<and> GetChromeInstallPath E h1 True \<noteq> [] \<longrightarrow>
            r = ((False, EXISTING_VERSION_LAUNCHED),
                 h1 @ [Call_GetChromeInstallPath True,
                       Call_WriteInstallerResult False EXISTING_VERSION_LAUNCHED ID_ZERO None,
                       Call_LaunchApp
                         (quote @ AppendToPath E (GetChromeInstallPath E h1 True) (kChromeExe (K E)) @
                          quote @ '' --'' @ kFirstRun (K E))])) \<and>
         (\<not> sys \<and> installed = None \<and> GetChromeInstallPath E h1 True = [] \<longrightarrow>
            r = ((False, OS_ERROR),
                 h1 @ [Call_GetChromeInstallPath True,
                       Call_WriteInstallerResult False OS_ERROR IDS_INSTALL_OS_ERROR_BASE None])) \<and>
         (sys \<or> installed \<noteq> None \<longrightarrow>
            fst r = (False, if sys then USER_LEVEL_INSTALL_EXISTS else SYSTEM_LEVEL_INSTALL_EXISTS) \<and>
            snd r =
              h1 @ [Call_WriteInstallerResult sys
                      (if sys then USER_LEVEL_INSTALL_EXISTS else SYSTEM_LEVEL_INSTALL_EXISTS)
                      (if sys then IDS_INSTALL_USER_LEVEL_EXISTS_BASE
                       else IDS_INSTALL_SYSTEM_LEVEL_EXISTS_BASE) None] \<and>
            filter launches (new_calls h0 (snd r)) = []) \<and>
         filter modifies_files (new_calls h0 (snd r)) = []"
  using assms
  by (auto simp: CheckPreInstallConditions_def new_calls_def Let_def)

theorem CheckPreInstallConditions_other_scope_witness:
  "GetChromeVersion demo_env_system_installed [] (\<not> False) = Some [9, 0] \<and>
   CheckPreInstallConditions demo_env_system_installed None False UNKNOWN_STATUS [] =
     ((False, EXISTING_VERSION_LAUNCHED),
      [Call_GetChromeVersion True, Call_GetChromeInstallPath True,
       Call_WriteInstallerResult False EXISTING_VERSION_LAUNCHED ID_ZERO None,
       Call_LaunchApp (quote @ ''C:/Programs/Chrome/chrome.exe'' @ quote @ '' --first-run'')]) \<and>
   CheckPreInstallConditions demo_env_system_installed (Some [8, 0]) False UNKNOWN_STATUS [] =
     ((False, SYSTEM_LEVEL_INSTALL_EXISTS),
      [Call_GetChromeVersion True,
       Call_WriteInstallerResult False SYSTEM_LEVEL_INSTALL_EXISTS
         IDS_INSTALL_SYSTEM_LEVEL_EXISTS_BASE None]) \<and>
   GetChromeVersion demo_env_user_installed [] (\<not> True) = Some [9, 0] \<and>
   CheckPreInstallConditions demo_env_user_installed None True UNKNOWN_STATUS [] =
     ((False, USER_LEVEL_INSTALL_EXISTS),
      [Call_GetChromeVersion False,
       Call_WriteInstallerResult True USER_LEVEL_INSTALL_EXISTS
         IDS_INSTALL_USER_LEVEL_EXISTS_BASE None])"
proof -
  have v: "GetChromeVersion demo_env_system_installed [] (\<not> False) = Some [9, 0]"
    by (simp add: demo_env_system_installed_def demo_env_def)
  have w: "GetChromeVersion demo_env_user_installed [] (\<not> True) = Some [9, 0]"
    by (simp add: demo_env_user_installed_def demo_env_def)
  have eq: "x = (fst x, snd x)" for x :: "(bool \<times> InstallStatus) \<times> trace"
    by simp
  show ?thesis
    using v w
      CheckPreInstallConditions_other_scope [OF v refl refl, of None UNKNOWN_STATUS]
      CheckPreInstallConditions_other_scope [OF v refl refl, of "Some [8, 0]" UNKNOWN_STATUS]
      CheckPreInstallConditions_other_scope [OF w refl refl, of None UNKNOWN_STATUS]
      eq [of "CheckPreInstallConditions demo_env_system_installed (Some [8, 0]) False
                UNKNOWN_STATUS []"]
      eq [of "CheckPreInstallConditions demo_env_user_installed None True UNKNOWN_STATUS []"]
    by (simp add: demo_env_system_installed_def demo_env_user_installed_def demo_env_def
          demo_constants_def)
qed

text \<open>
  Claim C5, as it is worded, promises EXISTING\_VERSION\_LAUNCHED and a launch for
  every first-time user-level install next to a system-level one. On a machine
  where the system-level install path cannot be constructed the status is
  OS\_ERROR and nothing is launched.
\<close>

theorem CheckPreInstallConditions_path_failure:
  "GetChromeVersion (demo_env_system_installed\<lparr>GetChromeInstallPath := (\<lambda>h s. [])\<rparr>) [] True =
     Some [9, 0] \<and>
   CheckPreInstallConditions (demo_env_system_installed\<lparr>GetChromeInstallPath := (\<lambda>h s. [])\<rparr>)
     None False UNKNOWN_STATUS [] =
     ((False, OS_ERROR),
      [Call_GetChromeVersion True, Call_GetChromeInstallPath True,
       Call_WriteInstallerResult False OS_ERROR IDS_INSTALL_OS_ERROR_BASE None]) \<and>
   snd (fst (CheckPreInstallConditions
      (demo_env_system_installed\<lparr>GetChromeInstallPath := (\<lambda>h s. [])\<rparr>)
      None False UNKNOWN_STATUS [])) \<noteq> EXISTING_VERSION_LAUNCHED"
  by (simp add: CheckPreInstallConditions_def demo_env_system_installed_def demo_env_def Let_def)

text \<open>
  Claim C8. On a first install with no installation at the opposite scope, when
  a directory exists at the install path, preflight deletes it before going on.
  If the deletion succeeds preflight returns true with the status untouched; if
  it fails preflight reports INSTALL\_DIR\_IN\_USE and returns false, and
  InstallChrome returns that status with no further call.
\<close>

theorem CheckPreInstallConditions_install_dir:
  assumes "GetChromeVersion E h0 (\<not> sys) = None"
    and "h1 = h0 @ [Call_GetChromeVersion (\<not> sys)]"
    and "install_path = GetChromeInstallPath E h1 sys"
    and "h3 = h1 @ [Call_GetChromeInstallPath sys, Call_PathExists install_path]"
    and "PathExists E (h1 @ [Call_GetChromeInstallPath sys]) install_path"
  shows "CheckPreInstallConditions E None sys status h0 =
           (if Delete E h3 install_path True
            then ((True, status), h3 @ [Call_Delete install_path True])
            else ((False, INSTALL_DIR_IN_USE),
                  h3 @ [Call_Delete install_path True,
                        Call_WriteInstallerResult sys INSTALL_DIR_IN_USE
                          IDS_INSTALL_DIR_IN_USE_BASE None])) \<and>
         (\<not> Delete E h3 install_path True \<and> GetDistroBooleanPreference prefs kSystemLevel False = sys
            \<longrightarrow> InstallChrome E cmd_line None prefs h0 =
                  (INSTALL_DIR_IN_USE,
                   h3 @ [Call_Delete install_path True,
                         Call_WriteInstallerResult sys INSTALL_DIR_IN_USE
                           IDS_INSTALL_DIR_IN_USE_BASE None]))"
  using assms
  by (auto simp: CheckPreInstallConditions_def InstallChrome_def Let_def)

theorem CheckPreInstallConditions_install_dir_witness:
  "GetChromeVersion demo_env_dir_in_use [] (\<not> False) = None \<and>
   PathExists demo_env_dir_in_use [Call_GetChromeVersion True, Call_GetChromeInstallPath False]
     ''C:/User/Chrome'' \<and>
   CheckPreInstallConditions demo_env_dir_in_use None False UNKNOWN_STATUS [] =
     ((False, INSTALL_DIR_IN_USE),
      [Call_GetChromeVersion True, Call_GetChromeInstallPath False,
       Call_PathExists ''C:/User/Chrome'', Call_Delete ''C:/User/Chrome'' True,
       Call_WriteInstallerResult False INSTALL_DIR_IN_USE IDS_INSTALL_DIR_IN_USE_BASE None]) \<and>
   InstallChrome demo_env_dir_in_use demo_cmd_line None [] [] =
     (INSTALL_DIR_IN_USE,
      [Call_GetChromeVersion True, Call_GetChromeInstallPath False,
       Call_PathExists ''C:/User/Chrome'', Call_Delete ''C:/User/Chrome'' True,
       Call_WriteInstallerResult False INSTALL_DIR_IN_USE IDS_INSTALL_DIR_IN_USE_BASE None])"
proof -
  have v: "GetChromeVersion demo_env_dir_in_use [] (\<not> False) = None"
    by (simp add: demo_env_dir_in_use_def demo_env_def)
  have p: "GetChromeInstallPath demo_env_dir_in_use ([] @ [Call_GetChromeVersion (\<not> False)]) False
             = ''C:/User/Chrome''"
    by (simp add: demo_env_dir_in_use_def demo_env_def)
  have e: "PathExists demo_env_dir_in_use
             (([] @ [Call_GetChromeVersion (\<not> False)]) @ [Call_GetChromeInstallPath False])
             ''C:/User/Chrome''"
    by (simp add: demo_env_dir_in_use_def demo_env_def)
  show ?thesis
    using v e
      CheckPreInstallConditions_install_dir [OF v refl p [symmetric] refl e,
        of UNKNOWN_STATUS "[]" demo_cmd_line]
    by (simp add: demo_env_dir_in_use_def demo_env_def GetDistroBooleanPreference_def)
qed

subsection \<open>The calls of each block\<close>

text \<open>
  Every function appends to the trace it is given. The lemmas of this
  subsection say which kinds of call each block can append.
\<close>

lemma CheckPreInstallConditions_passes:
  assumes "CheckPreInstallConditions E inst sys st h0 = ((True, st'), h1)"
  shows "\<exists>t. h1 = h0 @ t \<and> st' = st \<and> filter writes_result t = [] \<and>
             filter probes_version t = [] \<and> filter mutates_install t = [] \<and>
             filter launches t = []"
  using assms
  by (auto simp: CheckPreInstallConditions_def Let_def split: option.splits if_splits)

lemma CheckPreInstallConditions_calls:
  assumes "CheckPreInstallConditions E inst sys st h0 = (r, h1)"
  shows "\<exists>t. h1 = h0 @ t \<and> filter probes_version t = [] \<and> filter mutates_install t = [] \<and>
             (sys \<longrightarrow> filter launches t = []) \<and>
             (\<forall>s. Call_LaunchChrome s \<notin> set t) \<and>
             (\<not> fst r \<longrightarrow> snd r \<noteq> FIRST_INSTALL_SUCCESS) \<and>
             (fst r \<longrightarrow> filter launches t = [] \<and> filter writes_result t = [] \<and> snd r = st)"
  using assms
  by (auto simp: CheckPreInstallConditions_def Let_def split: option.splits if_splits)

lemma UnPackArchive_calls:
  assumes "UnPackArchive E archive sys inst temp_path path inc h0 = (r, h1)"
  shows "\<exists>t. h1 = h0 @ t \<and> filter writes_result t = [] \<and> filter probes_version t = [] \<and>
             filter mutates_install t = [] \<and> filter launches t = []"
  using assms
  by (auto simp: UnPackArchive_def Let_def split: option.splits if_splits prod.splits)

lemma InstallChrome_cleanup_calls:
  assumes "InstallChrome_cleanup E cmd sys temp_path inc status h0 = (r, h1)"
  shows "\<exists>t. h1 = h0 @ t \<and> r = status \<and> filter writes_result t = [] \<and>
             filter probes_version t = [] \<and> filter mutates_install t = [] \<and>
             filter launches t = []"
  using assms
  by (auto simp: InstallChrome_cleanup_def Let_def split: option.splits if_splits prod.splits)

lemma InstallChrome_cleanup_status:
  "InstallChrome_cleanup E cmd sys temp_path inc status h0 =
     (status, snd (InstallChrome_cleanup E cmd sys temp_path inc status h0))"
  by (simp add: InstallChrome_cleanup_def Let_def split: prod.splits)

lemma InstallChrome_mutate_calls:
  assumes "InstallChrome_mutate E cmd inst prefs sys temp_path v h0 = (status, h1)"
  shows "\<exists>t. h1 = h0 @ t \<and>
         filter probes_version t = [] \<and>
         filter mutates_install t =
           [Call_InstallOrUpdateChrome (program cmd) (AppendToPath E temp_path (kChromeArchive (K E)))
              temp_path (GetSwitchValue cmd kInstallerData) prefs v inst] \<and>
         length (filter writes_result t) = 1 \<and>
         Call_WriteInstallerResult sys HIGHER_VERSION_EXISTS IDS_INSTALL_HIGHER_VERSION_BASE None
           \<notin> set t \<and>
         filter launches t =
           (if status = FIRST_INSTALL_SUCCESS \<and> \<not> sys \<and>
               \<not> GetDistroBooleanPreference prefs kDoNotLaunchChrome False
            then [Call_LaunchChrome sys] else [])"
  using assms
  by (auto simp: InstallChrome_mutate_def Let_def split: option.splits if_splits prod.splits)

lemma InstallChrome_unpacked_calls:
  assumes "InstallChrome_unpacked E cmd inst prefs sys temp_path unpack_path h0 = (d, h1)"
  shows "\<exists>t. h1 = h0 @ t \<and>
         filter launches t =
           (if d = FIRST_INSTALL_SUCCESS \<and> \<not> sys \<and>
               \<not> GetDistroBooleanPreference prefs kDoNotLaunchChrome False
            then [Call_LaunchChrome sys] else [])"
  using assms
  by (auto simp: InstallChrome_unpacked_def Let_def split: option.splits if_splits prod.splits
           dest!: InstallChrome_mutate_calls)

lemma InstallChrome_decide_calls:
  assumes "InstallChrome_decide E cmd inst prefs sys archive temp_path unpack_path h0 = ((d, inc), h1)"
  shows "\<exists>t. h1 = h0 @ t \<and>
         filter launches t =
           (if d = FIRST_INSTALL_SUCCESS \<and> \<not> sys \<and>
               \<not> GetDistroBooleanPreference prefs kDoNotLaunchChrome False
            then [Call_LaunchChrome sys] else [])"
  using assms
  by (auto simp: InstallChrome_decide_def Let_def split: option.splits if_splits prod.splits
           dest!: InstallChrome_unpacked_calls UnPackArchive_calls)


lemma InstallChrome_past_temp:
  assumes "system_level = GetDistroBooleanPreference prefs kSystemLevel False"
    and "CheckPreInstallConditions E installed_version system_level UNKNOWN_STATUS h0 =
           ((True, st), h1)"
    and "CreateNewTempDirectory E h1 ''chrome_'' = Some temp_path"
    and "InstallChrome_decide E cmd_line installed_version prefs system_level
           (InstallChrome_archive E cmd_line) temp_path
           (AppendToPath E temp_path (kInstallSourceDir (K E)))
           (h1 @ [Call_CreateNewTempDirectory ''chrome_'']) = ((d, inc), h3)"
  shows "InstallChrome E cmd_line installed_version prefs h0 =
           InstallChrome_cleanup E cmd_line system_level temp_path inc d h3"
  using assms
  by (simp add: InstallChrome_def Let_def)

lemma InstallChrome_decide_unpacked:
  assumes "UnPackArchive E archive system_level installed_version temp_path unpack_path False h0 =
             ((ret, inc), h1)"
  shows "InstallChrome_decide E cmd_line installed_version prefs system_level archive temp_path
           unpack_path h0 =
           (if ret \<noteq> 0 then
              ((UNCOMPRESSION_FAILED, inc),
               h1 @ [Call_WriteInstallerResult system_level UNCOMPRESSION_FAILED
                       IDS_INSTALL_UNCOMPRESSION_FAILED_BASE None])
            else
              ((fst (InstallChrome_unpacked E cmd_line installed_version prefs system_level
                       temp_path unpack_path h1), inc),
               snd (InstallChrome_unpacked E cmd_line installed_version prefs system_level
                       temp_path unpack_path h1)))"
  using assms
  by (simp add: InstallChrome_decide_def Let_def split: prod.splits)



subsection \<open>The unpack phase\<close>

text \<open>
  Claim C2. Let the first decompression in UnPackArchive succeed. Then the
  payload is classified as differential (the flag incremental\_install, passed
  in as false, comes back true) exactly when the file named by kChromeArchive
  does not exist in the temporary directory; nothing else enters the decision.
  If the file is missing and no installed version is known, UnPackArchive
  returns the value of CHROME\_NOT\_INSTALLED right after the existence test:
  no patch is applied and nothing is unpacked. When that value is not zero and
  the call is the one InstallChrome makes after a passed preflight, InstallChrome
  returns the status UNCOMPRESSION\_FAILED and writes exactly that result.
\<close>

theorem UnPackArchive_differential:
  assumes lz: "LzmaUtil_UnPackArchive E h archive temp_path = (NO_ERROR, unpacked_file)"
    and h': "h' = h @ [Call_LzmaUtil_UnPackArchive archive temp_path]"
    and ua: "uncompressed_archive = AppendToPath E temp_path (kChromeArchive (K E))"
    and u: "u = UnPackArchive E archive system_level installed_version temp_path path False h"
  shows "snd (fst u) = (\<not> PathExists E h' uncompressed_archive) \<and>
         (\<not> PathExists E h' uncompressed_archive \<and> installed_version = None \<longrightarrow>
            u = ((status_value (K E) CHROME_NOT_INSTALLED, True),
                 h' @ [Call_PathExists uncompressed_archive]) \<and>
            (status_value (K E) CHROME_NOT_INSTALLED \<noteq> 0 \<and>
             system_level = GetDistroBooleanPreference prefs kSystemLevel False \<and>
             CheckPreInstallConditions E None system_level UNKNOWN_STATUS h0 = ((True, st), h1) \<and>
             CreateNewTempDirectory E h1 ''chrome_'' = Some temp_path \<and>
             h = h1 @ [Call_CreateNewTempDirectory ''chrome_''] \<and>
             archive = InstallChrome_archive E cmd_line \<and>
             path = AppendToPath E temp_path (kInstallSourceDir (K E)) \<longrightarrow>
               fst (InstallChrome E cmd_line None prefs h0) = UNCOMPRESSION_FAILED \<and>
               filter writes_result (new_calls h0 (snd (InstallChrome E cmd_line None prefs h0))) =
                 [Call_WriteInstallerResult system_level UNCOMPRESSION_FAILED
                    IDS_INSTALL_UNCOMPRESSION_FAILED_BASE None]))"
proof -
  have flag: "snd (fst u) = (\<not> PathExists E h' uncompressed_archive)"
    using lz h' ua u
    by (simp add: UnPackArchive_def Let_def split: option.splits prod.splits)
  have ret: "u = ((status_value (K E) CHROME_NOT_INSTALLED, True),
                  h' @ [Call_PathExists uncompressed_archive])"
    if "\<not> PathExists E h' uncompressed_archive" "installed_version = None"
    using lz h' ua u that by (simp add: UnPackArchive_def Let_def)
  have run: "fst (InstallChrome E cmd_line None prefs h0) = UNCOMPRESSION_FAILED \<and>
             filter writes_result (new_calls h0 (snd (InstallChrome E cmd_line None prefs h0))) =
               [Call_WriteInstallerResult system_level UNCOMPRESSION_FAILED
                  IDS_INSTALL_UNCOMPRESSION_FAILED_BASE None]"
    if ne: "\<not> PathExists E h' uncompressed_archive" and none: "installed_version = None"
      and nz: "status_value (K E) CHROME_NOT_INSTALLED \<noteq> 0"
      and sl: "system_level = GetDistroBooleanPreference prefs kSystemLevel False"
      and pre: "CheckPreInstallConditions E None system_level UNKNOWN_STATUS h0 = ((True, st), h1)"
      and tmp: "CreateNewTempDirectory E h1 ''chrome_'' = Some temp_path"
      and h: "h = h1 @ [Call_CreateNewTempDirectory ''chrome_'']"
      and ar: "archive = InstallChrome_archive E cmd_line"
      and pa: "path = AppendToPath E temp_path (kInstallSourceDir (K E))"
  proof -
    let ?w = "Call_WriteInstallerResult system_level UNCOMPRESSION_FAILED
                IDS_INSTALL_UNCOMPRESSION_FAILED_BASE None"
    let ?h3 = "h' @ [Call_PathExists uncompressed_archive]"
    have unp: "UnPackArchive E (InstallChrome_archive E cmd_line) system_level None temp_path
                 (AppendToPath E temp_path (kInstallSourceDir (K E))) False
                 (h1 @ [Call_CreateNewTempDirectory ''chrome_'']) =
               ((status_value (K E) CHROME_NOT_INSTALLED, True), ?h3)"
      using ret [OF ne none] u none h ar pa by simp
    from CheckPreInstallConditions_passes [OF pre] obtain t1 where
      t1: "h1 = h0 @ t1" "filter writes_result t1 = []"
      by auto
    obtain status' h4 where
      cl: "InstallChrome_cleanup E cmd_line system_level temp_path True UNCOMPRESSION_FAILED
             (?h3 @ [?w]) = (status', h4)"
      by (metis prod.exhaust)
    from InstallChrome_cleanup_calls [OF cl] obtain t4 where
      t4: "h4 = (?h3 @ [?w]) @ t4" "filter writes_result t4 = []"
          "status' = UNCOMPRESSION_FAILED"
      by auto
    have "InstallChrome E cmd_line None prefs h0 = (UNCOMPRESSION_FAILED, h4)"
      using InstallChrome_past_temp [OF sl pre tmp, of cmd_line]
        InstallChrome_decide_unpacked [OF unp, of cmd_line prefs] nz cl t4(3)
      by simp
    then show ?thesis
      using t1 t4 h h' by (simp add: new_calls_def)
  qed
  show ?thesis
    using flag ret run by blast
qed

theorem UnPackArchive_differential_witness:
  "LzmaUtil_UnPackArchive demo_env_patch
     [Call_GetChromeVersion True, Call_GetChromeInstallPath False,
      Call_PathExists ''C:/User/Chrome'', Call_CreateNewTempDirectory ''chrome_'']
     ''D:/chrome.packed.7z'' ''T:/chrome_1'' = (NO_ERROR, ''T:/chrome_1/chrome.7z'') \<and>
   \<not> PathExists demo_env_patch
     [Call_GetChromeVersion True, Call_GetChromeInstallPath False,
      Call_PathExists ''C:/User/Chrome'', Call_CreateNewTempDirectory ''chrome_'',
      Call_LzmaUtil_UnPackArchive ''D:/chrome.packed.7z'' ''T:/chrome_1'']
     ''T:/chrome_1/chrome.7z'' \<and>
   status_value (K demo_env_patch) CHROME_NOT_INSTALLED = 15 \<and>
   CheckPreInstallConditions demo_env_patch None False UNKNOWN_STATUS [] =
     ((True, UNKNOWN_STATUS),
      [Call_GetChromeVersion True, Call_GetChromeInstallPath False,
       Call_PathExists ''C:/User/Chrome'']) \<and>
   UnPackArchive demo_env_patch ''D:/chrome.packed.7z'' False None ''T:/chrome_1''
     ''T:/chrome_1/source'' False
     [Call_GetChromeVersion True, Call_GetChromeInstallPath False,
      Call_PathExists ''C:/User/Chrome'', Call_CreateNewTempDirectory ''chrome_''] =
     ((15, True),
      [Call_GetChromeVersion True, Call_GetChromeInstallPath False,
       Call_PathExists ''C:/User/Chrome'', Call_CreateNewTempDirectory ''chrome_'',
       Call_LzmaUtil_UnPackArchive ''D:/chrome.packed.7z'' ''T:/chrome_1'',
       Call_PathExists ''T:/chrome_1/chrome.7z'']) \<and>
   InstallChrome demo_env_patch demo_cmd_line None [] [] =
     (UNCOMPRESSION_FAILED,
      [Call_GetChromeVersion True, Call_GetChromeInstallPath False,
       Call_PathExists ''C:/User/Chrome'', Call_CreateNewTempDirectory ''chrome_'',
       Call_LzmaUtil_UnPackArchive ''D:/chrome.packed.7z'' ''T:/chrome_1'',
       Call_PathExists ''T:/chrome_1/chrome.7z'',
       Call_WriteInstallerResult False UNCOMPRESSION_FAILED
         IDS_INSTALL_UNCOMPRESSION_FAILED_BASE None,
       Call_Delete ''T:/chrome_1'' True,
       Call_UpdateDiffInstallStatus False True UNCOMPRESSION_FAILED])"
proof -
  let ?h = "[Call_GetChromeVersion True, Call_GetChromeInstallPath False,
            Call_PathExists ''C:/User/Chrome'', Call_CreateNewTempDirectory ''chrome_'']"
  have lz: "LzmaUtil_UnPackArchive demo_env_patch ?h ''D:/chrome.packed.7z'' ''T:/chrome_1'' =
              (NO_ERROR, ''T:/chrome_1/chrome.7z'')"
    by (simp add: demo_env_patch_def demo_cmd_line_def demo_env_def demo_constants_def NO_ERROR_def)
  show ?thesis
    using lz
      UnPackArchive_differential [where system_level = False and installed_version = None
        and path = "''T:/chrome_1/source''" and prefs = "[]" and ?h0.0 = "[]"
        and st = UNKNOWN_STATUS and cmd_line = demo_cmd_line
        and ?h1.0 = "[Call_GetChromeVersion True, Call_GetChromeInstallPath False,
                      Call_PathExists ''C:/User/Chrome'']",
        OF lz refl refl refl]
    by (simp add: code_simps new_calls_def demo_env_patch_def demo_cmd_line_def demo_env_def
          demo_constants_def)
qed

text \<open>
  What UnPackArchive and the cleanup block write to: the temporary directory,
  the archive and the unpack directory inside it, and the preferences file named
  on the command line. Neither changes the installation.
\<close>

lemma UnPackArchive_targets:
  assumes "UnPackArchive E archive sys inst temp_path path inc h0 = (r, h1)"
  shows "\<exists>t. h1 = h0 @ t \<and> filter changes_install t = [] \<and>
             (\<forall>c\<in>set t. set (writes_to c) \<subseteq>
                {temp_path, AppendToPath E temp_path (kChromeArchive (K E)), path})"
  using assms
  by (auto simp: UnPackArchive_def Let_def split: option.splits if_splits prod.splits)

lemma InstallChrome_cleanup_targets:
  assumes "InstallChrome_cleanup E cmd sys temp_path inc status h0 = (r, h1)"
  shows "\<exists>t. h1 = h0 @ t \<and> filter changes_install t = [] \<and>
             (\<forall>c\<in>set t. set (writes_to c) \<subseteq> {temp_path, GetSwitchValue cmd kInstallerData})"
  using assms
  by (auto simp: InstallChrome_cleanup_def Let_def split: option.splits if_splits prod.splits)

text \<open>
  UnPackArchive returns a value other than zero exactly when one of its
  sub-steps fails, provided that CHROME\_NOT\_INSTALLED is not the enumerator
  with the value zero.
\<close>

lemma UnPackArchive_fails_iff:
  assumes "status_value (K E) CHROME_NOT_INSTALLED \<noteq> 0"
  shows "(fst (fst (UnPackArchive E archive sys inst temp_path path inc h0)) \<noteq> 0) =
           unpack_step_fails E archive sys inst temp_path path h0"
  using assms
  by (auto simp: UnPackArchive_def unpack_step_fails_def NO_ERROR_def Let_def
           split: option.splits prod.splits)

lemma InstallChrome_unpack_nonzero:
  assumes sl: "system_level = GetDistroBooleanPreference prefs kSystemLevel False"
    and pre: "CheckPreInstallConditions E installed_version system_level UNKNOWN_STATUS h0 =
           ((True, st), h1)"
    and tmp: "CreateNewTempDirectory E h1 ''chrome_'' = Some temp_path"
    and unp: "UnPackArchive E (InstallChrome_archive E cmd_line) system_level installed_version
           temp_path (AppendToPath E temp_path (kInstallSourceDir (K E))) False
           (h1 @ [Call_CreateNewTempDirectory ''chrome_'']) = ((ret, inc), h3)"
    and ret: "ret \<noteq> 0"
    and r: "r = InstallChrome E cmd_line installed_version prefs h0"
  shows "fst r = UNCOMPRESSION_FAILED \<and>
         filter writes_result (new_calls h0 (snd r)) =
           [Call_WriteInstallerResult system_level UNCOMPRESSION_FAILED
              IDS_INSTALL_UNCOMPRESSION_FAILED_BASE None] \<and>
         filter probes_version (new_calls h0 (snd r)) = [] \<and>
         filter mutates_install (new_calls h0 (snd r)) = [] \<and>
         filter changes_install (new_calls h1 (snd r)) = [] \<and>
         (\<forall>c\<in>set (new_calls h1 (snd r)). set (writes_to c) \<subseteq>
            {temp_path, AppendToPath E temp_path (kChromeArchive (K E)),
             AppendToPath E temp_path (kInstallSourceDir (K E)),
             GetSwitchValue cmd_line kInstallerData}) \<and>
         snd r =
           snd (InstallChrome_cleanup E cmd_line system_level temp_path inc UNCOMPRESSION_FAILED
                  (h3 @ [Call_WriteInstallerResult system_level UNCOMPRESSION_FAILED
                           IDS_INSTALL_UNCOMPRESSION_FAILED_BASE None]))"
proof -
  let ?w = "Call_WriteInstallerResult system_level UNCOMPRESSION_FAILED
              IDS_INSTALL_UNCOMPRESSION_FAILED_BASE None"
  from CheckPreInstallConditions_passes [OF pre] obtain t1 where
    t1: "h1 = h0 @ t1" "filter writes_result t1 = []" "filter probes_version t1 = []"
        "filter mutates_install t1 = []"
    by auto
  from UnPackArchive_calls [OF unp] UnPackArchive_targets [OF unp] obtain t3 where
    t3: "h3 = (h1 @ [Call_CreateNewTempDirectory ''chrome_'']) @ t3"
        "filter writes_result t3 = []" "filter probes_version t3 = []"
        "filter mutates_install t3 = []" "filter changes_install t3 = []"
        "\<forall>c\<in>set t3. set (writes_to c) \<subseteq>
           {temp_path, AppendToPath E temp_path (kChromeArchive (K E)),
            AppendToPath E temp_path (kInstallSourceDir (K E))}"
    by auto
  obtain status' h4 where
    cl: "InstallChrome_cleanup E cmd_line system_level temp_path inc UNCOMPRESSION_FAILED
           (h3 @ [?w]) = (status', h4)"
    by (metis prod.exhaust)
  from InstallChrome_cleanup_calls [OF cl] InstallChrome_cleanup_targets [OF cl] obtain t4 where
    t4: "h4 = (h3 @ [?w]) @ t4" "filter writes_result t4 = []" "filter probes_version t4 = []"
        "filter mutates_install t4 = []" "status' = UNCOMPRESSION_FAILED"
        "filter changes_install t4 = []"
        "\<forall>c\<in>set t4. set (writes_to c) \<subseteq> {temp_path, GetSwitchValue cmd_line kInstallerData}"
    by auto
  have res: "r = (UNCOMPRESSION_FAILED, h4)"
    using InstallChrome_past_temp [OF sl pre tmp, of cmd_line]
      InstallChrome_decide_unpacked [OF unp, of cmd_line prefs] ret r cl t4(5)
    by simp
  have after: "new_calls h1 (snd r) = Call_CreateNewTempDirectory ''chrome_'' # t3 @ ?w # t4"
    using res t3(1) t4(1) by (simp add: new_calls_def)
  have targets: "\<forall>c\<in>set (new_calls h1 (snd r)). set (writes_to c) \<subseteq>
            {temp_path, AppendToPath E temp_path (kChromeArchive (K E)),
             AppendToPath E temp_path (kInstallSourceDir (K E)),
             GetSwitchValue cmd_line kInstallerData}"
    unfolding after using t3(6) t4(7) by auto
  have quiet: "filter changes_install (new_calls h1 (snd r)) = []"
    unfolding after using t3(5) t4(6) by simp
  show ?thesis
    using res t1 t3(1-4) t4(1-4) cl targets quiet by (simp add: new_calls_def)
qed

text \<open>
  Claim C3, as the code has it. In a run of InstallChrome that passes preflight
  and creates its temporary directory, let a sub-step of the unpack phase fail:
  the initial decompression, the installed version that a differential payload
  needs, the patch, or the final unpack (the value of CHROME\_NOT\_INSTALLED not
  being zero). Then UnPackArchive returns a value other than zero, the returned
  status is UNCOMPRESSION\_FAILED, the run writes exactly one installer result,
  which carries that status, and it neither probes the payload for a version nor
  calls InstallOrUpdateChrome. From the end of preflight on nothing changes the
  installation: the run makes no install, registry or work-list call, and every
  path it deletes, unpacks into, patches or schedules for deletion is the
  temporary directory, the archive or the unpack directory inside it, or the
  preferences file named on the command line. After UnPackArchive has returned
  the run writes the result and goes through the cleanup block, and that is all.
\<close>

theorem InstallChrome_unpack_failure:
  assumes sl: "system_level = GetDistroBooleanPreference prefs kSystemLevel False"
    and pre: "CheckPreInstallConditions E installed_version system_level UNKNOWN_STATUS h0 =
           ((True, st), h1)"
    and tmp: "CreateNewTempDirectory E h1 ''chrome_'' = Some temp_path"
    and nz: "status_value (K E) CHROME_NOT_INSTALLED \<noteq> 0"
    and fails: "unpack_step_fails E (InstallChrome_archive E cmd_line) system_level
           installed_version temp_path (AppendToPath E temp_path (kInstallSourceDir (K E)))
           (h1 @ [Call_CreateNewTempDirectory ''chrome_''])"
    and u: "u = UnPackArchive E (InstallChrome_archive E cmd_line) system_level installed_version
           temp_path (AppendToPath E temp_path (kInstallSourceDir (K E))) False
           (h1 @ [Call_CreateNewTempDirectory ''chrome_''])"
    and r: "r = InstallChrome E cmd_line installed_version prefs h0"
  shows "fst (fst u) \<noteq> 0 \<and>
         fst r = UNCOMPRESSION_FAILED \<and>
         filter writes_result (new_calls h0 (snd r)) =
           [Call_WriteInstallerResult system_level UNCOMPRESSION_FAILED
              IDS_INSTALL_UNCOMPRESSION_FAILED_BASE None] \<and>
         filter probes_version (new_calls h0 (snd r)) = [] \<and>
         filter mutates_install (new_calls h0 (snd r)) = [] \<and>
         filter changes_install (new_calls h1 (snd r)) = [] \<and>
         (\<forall>c\<in>set (new_calls h1 (snd r)). set (writes_to c) \<subseteq>
            {temp_path, AppendToPath E temp_path (kChromeArchive (K E)),
             AppendToPath E temp_path (kInstallSourceDir (K E)),
             GetSwitchValue cmd_line kInstallerData}) \<and>
         snd r =
           snd (InstallChrome_cleanup E cmd_line system_level temp_path (snd (fst u))
                  UNCOMPRESSION_FAILED
                  (snd u @ [Call_WriteInstallerResult system_level UNCOMPRESSION_FAILED
                              IDS_INSTALL_UNCOMPRESSION_FAILED_BASE None]))"
proof -
  have ret: "fst (fst u) \<noteq> 0"
    using UnPackArchive_fails_iff [OF nz] fails u by blast
  have unp: "UnPackArchive E (InstallChrome_archive E cmd_line) system_level installed_version
           temp_path (AppendToPath E temp_path (kInstallSourceDir (K E))) False
           (h1 @ [Call_CreateNewTempDirectory ''chrome_'']) = ((fst (fst u), snd (fst u)), snd u)"
    using u by simp
  show ?thesis
    using ret InstallChrome_unpack_nonzero [OF sl pre tmp unp ret r] by blast
qed

theorem InstallChrome_unpack_failure_witness:
  "unpack_step_fails demo_env_corrupt ''D:/chrome.packed.7z'' False None ''T:/chrome_1''
     ''T:/chrome_1/source''
     [Call_GetChromeVersion True,
      Call_GetChromeInstallPath False,
      Call_PathExists ''C:/User/Chrome'',
      Call_CreateNewTempDirectory ''chrome_''] \<and>
   InstallChrome demo_env_corrupt demo_cmd_line None [] [] =
     (UNCOMPRESSION_FAILED,
      [Call_GetChromeVersion True,
       Call_GetChromeInstallPath False,
       Call_PathExists ''C:/User/Chrome'',
       Call_CreateNewTempDirectory ''chrome_'',
       Call_LzmaUtil_UnPackArchive ''D:/chrome.packed.7z'' ''T:/chrome_1'',
       Call_WriteInstallerResult False UNCOMPRESSION_FAILED
         IDS_INSTALL_UNCOMPRESSION_FAILED_BASE None,
       Call_Delete ''T:/chrome_1'' True,
       Call_UpdateDiffInstallStatus False False UNCOMPRESSION_FAILED]) \<and>
   unpack_step_fails demo_env_patch ''D:/chrome.packed.7z'' False None ''T:/chrome_1''
     ''T:/chrome_1/source''
     [Call_GetChromeVersion True,
      Call_GetChromeInstallPath False,
      Call_PathExists ''C:/User/Chrome'',
      Call_CreateNewTempDirectory ''chrome_''] \<and>
   InstallChrome demo_env_patch demo_cmd_line None [] [] =
     (UNCOMPRESSION_FAILED,
      [Call_GetChromeVersion True,
       Call_GetChromeInstallPath False,
       Call_PathExists ''C:/User/Chrome'',
       Call_CreateNewTempDirectory ''chrome_'',
       Call_LzmaUtil_UnPackArchive ''D:/chrome.packed.7z'' ''T:/chrome_1'',
       Call_PathExists ''T:/chrome_1/chrome.7z'',
       Call_WriteInstallerResult False UNCOMPRESSION_FAILED
         IDS_INSTALL_UNCOMPRESSION_FAILED_BASE None,
       Call_Delete ''T:/chrome_1'' True,
       Call_UpdateDiffInstallStatus False True UNCOMPRESSION_FAILED]) \<and>
   unpack_step_fails demo_env_patch_fails ''D:/chrome.packed.7z'' False (Some [9, 0]) ''T:/chrome_1''
     ''T:/chrome_1/source''
     [Call_GetChromeVersion True,
      Call_CreateNewTempDirectory ''chrome_''] \<and>
   InstallChrome demo_env_patch_fails demo_cmd_line (Some [9, 0]) [] [] =
     (UNCOMPRESSION_FAILED,
      [Call_GetChromeVersion True,
       Call_CreateNewTempDirectory ''chrome_'',
       Call_LzmaUtil_UnPackArchive ''D:/chrome.packed.7z'' ''T:/chrome_1'',
       Call_PathExists ''T:/chrome_1/chrome.7z'',
       Call_GetChromeInstallPath False,
       Call_ApplyDiffPatch ''C:/User/Chrome/9.0/Installer/chrome.7z'' ''T:/chrome_1/chrome.7z''
         ''T:/chrome_1/chrome.7z'',
       Call_WriteInstallerResult False UNCOMPRESSION_FAILED
         IDS_INSTALL_UNCOMPRESSION_FAILED_BASE None,
       Call_Delete ''T:/chrome_1'' True,
       Call_UpdateDiffInstallStatus False True UNCOMPRESSION_FAILED]) \<and>
   unpack_step_fails demo_env_unpack_fails ''D:/chrome.packed.7z'' False None ''T:/chrome_1''
     ''T:/chrome_1/source''
     [Call_GetChromeVersion True,
      Call_GetChromeInstallPath False,
      Call_PathExists ''C:/User/Chrome'',
      Call_CreateNewTempDirectory ''chrome_''] \<and>
   InstallChrome demo_env_unpack_fails demo_cmd_line None [] [] =
     (UNCOMPRESSION_FAILED,
      [Call_GetChromeVersion True,
       Call_GetChromeInstallPath False,
       Call_PathExists ''C:/User/Chrome'',
       Call_CreateNewTempDirectory ''chrome_'',
       Call_LzmaUtil_UnPackArchive ''D:/chrome.packed.7z'' ''T:/chrome_1'',
       Call_PathExists ''T:/chrome_1/chrome.7z'',
       Call_LzmaUtil_UnPackArchive ''T:/chrome_1/chrome.7z'' ''T:/chrome_1/source'',
       Call_WriteInstallerResult False UNCOMPRESSION_FAILED
         IDS_INSTALL_UNCOMPRESSION_FAILED_BASE None,
       Call_Delete ''T:/chrome_1'' True,
       Call_UpdateDiffInstallStatus False False UNCOMPRESSION_FAILED])"
proof -
  have sl: "False = GetDistroBooleanPreference [] kSystemLevel False"
    by (simp add: GetDistroBooleanPreference_def)
  have first: "unpack_step_fails demo_env_corrupt ''D:/chrome.packed.7z'' False None ''T:/chrome_1''
         ''T:/chrome_1/source''
         [Call_GetChromeVersion True,
          Call_GetChromeInstallPath False,
          Call_PathExists ''C:/User/Chrome'',
          Call_CreateNewTempDirectory ''chrome_''] \<and>
       InstallChrome demo_env_corrupt demo_cmd_line None [] [] =
         (UNCOMPRESSION_FAILED,
          [Call_GetChromeVersion True,
           Call_GetChromeInstallPath False,
           Call_PathExists ''C:/User/Chrome'',
           Call_CreateNewTempDirectory ''chrome_'',
           Call_LzmaUtil_UnPackArchive ''D:/chrome.packed.7z'' ''T:/chrome_1'',
           Call_WriteInstallerResult False UNCOMPRESSION_FAILED
             IDS_INSTALL_UNCOMPRESSION_FAILED_BASE None,
           Call_Delete ''T:/chrome_1'' True,
           Call_UpdateDiffInstallStatus False False UNCOMPRESSION_FAILED])"
  proof -
    have pre: "CheckPreInstallConditions demo_env_corrupt None False UNKNOWN_STATUS [] =
                 ((True, UNKNOWN_STATUS),
                  [Call_GetChromeVersion True,
                   Call_GetChromeInstallPath False,
                   Call_PathExists ''C:/User/Chrome''])"
      by (simp add: CheckPreInstallConditions_def demo_env_corrupt_def demo_env_def demo_constants_def
            Let_def)
    have tmp: "CreateNewTempDirectory demo_env_corrupt
                 [Call_GetChromeVersion True,
                  Call_GetChromeInstallPath False,
                  Call_PathExists ''C:/User/Chrome'']
                 ''chrome_'' = Some ''T:/chrome_1''"
      by (simp add: demo_env_corrupt_def demo_env_def)
    have nz: "status_value (K demo_env_corrupt) CHROME_NOT_INSTALLED \<noteq> 0"
      by (simp add: demo_env_corrupt_def demo_env_def demo_constants_def)
    have fails: "unpack_step_fails demo_env_corrupt (InstallChrome_archive demo_env_corrupt demo_cmd_line) False
                   None ''T:/chrome_1''
                   (AppendToPath demo_env_corrupt ''T:/chrome_1'' (kInstallSourceDir (K demo_env_corrupt)))
                   ([Call_GetChromeVersion True,
                    Call_GetChromeInstallPath False,
                    Call_PathExists ''C:/User/Chrome''] @
                    [Call_CreateNewTempDirectory ''chrome_''])"
      by (simp add: unpack_step_fails_def code_simps demo_env_corrupt_def demo_cmd_line_def demo_env_def demo_constants_def)
    show ?thesis
      using fails InstallChrome_unpack_failure [OF sl pre tmp nz fails refl refl]
      by (simp add: unpack_step_fails_def code_simps new_calls_def demo_env_corrupt_def demo_cmd_line_def demo_env_def demo_constants_def)
  qed
  have version: "unpack_step_fails demo_env_patch ''D:/chrome.packed.7z'' False None ''T:/chrome_1''
         ''T:/chrome_1/source''
         [Call_GetChromeVersion True,
          Call_GetChromeInstallPath False,
          Call_PathExists ''C:/User/Chrome'',
          Call_CreateNewTempDirectory ''chrome_''] \<and>
       InstallChrome demo_env_patch demo_cmd_line None [] [] =
         (UNCOMPRESSION_FAILED,
          [Call_GetChromeVersion True,
           Call_GetChromeInstallPath False,
           Call_PathExists ''C:/User/Chrome'',
           Call_CreateNewTempDirectory ''chrome_'',
           Call_LzmaUtil_UnPackArchive ''D:/chrome.packed.7z'' ''T:/chrome_1'',
           Call_PathExists ''T:/chrome_1/chrome.7z'',
           Call_WriteInstallerResult False UNCOMPRESSION_FAILED
             IDS_INSTALL_UNCOMPRESSION_FAILED_BASE None,
           Call_Delete ''T:/chrome_1'' True,
           Call_UpdateDiffInstallStatus False True UNCOMPRESSION_FAILED])"
  proof -
    have pre: "CheckPreInstallConditions demo_env_patch None False UNKNOWN_STATUS [] =
                 ((True, UNKNOWN_STATUS),
                  [Call_GetChromeVersion True,
                   Call_GetChromeInstallPath False,
                   Call_PathExists ''C:/User/Chrome''])"
      by (simp add: CheckPreInstallConditions_def demo_env_patch_def demo_env_def demo_constants_def
            Let_def)
    have tmp: "CreateNewTempDirectory demo_env_patch
                 [Call_GetChromeVersion True,
                  Call_GetChromeInstallPath False,
                  Call_PathExists ''C:/User/Chrome'']
                 ''chrome_'' = Some ''T:/chrome_1''"
      by (simp add: demo_env_patch_def demo_env_def)
    have nz: "status_value (K demo_env_patch) CHROME_NOT_INSTALLED \<noteq> 0"
      by (simp add: demo_env_patch_def demo_env_def demo_constants_def)
    have fails: "unpack_step_fails demo_env_patch (InstallChrome_archive demo_env_patch demo_cmd_line) False
                   None ''T:/chrome_1''
                   (AppendToPath demo_env_patch ''T:/chrome_1'' (kInstallSourceDir (K demo_env_patch)))
                   ([Call_GetChromeVersion True,
                    Call_GetChromeInstallPath False,
                    Call_PathExists ''C:/User/Chrome''] @
                    [Call_CreateNewTempDirectory ''chrome_''])"
      by (simp add: unpack_step_fails_def code_simps demo_env_patch_def demo_cmd_line_def demo_env_def demo_constants_def)
    show ?thesis
      using fails InstallChrome_unpack_failure [OF sl pre tmp nz fails refl refl]
      by (simp add: unpack_step_fails_def code_simps new_calls_def demo_env_patch_def demo_cmd_line_def demo_env_def demo_constants_def)
  qed
  have patch: "unpack_step_fails demo_env_patch_fails ''D:/chrome.packed.7z'' False (Some [9, 0]) ''T:/chrome_1''
         ''T:/chrome_1/source''
         [Call_GetChromeVersion True,
          Call_CreateNewTempDirectory ''chrome_''] \<and>
       InstallChrome demo_env_patch_fails demo_cmd_line (Some [9, 0]) [] [] =
         (UNCOMPRESSION_FAILED,
          [Call_GetChromeVersion True,
           Call_CreateNewTempDirectory ''chrome_'',
           Call_LzmaUtil_UnPackArchive ''D:/chrome.packed.7z'' ''T:/chrome_1'',
           Call_PathExists ''T:/chrome_1/chrome.7z'',
           Call_GetChromeInstallPath False,
           Call_ApplyDiffPatch ''C:/User/Chrome/9.0/Installer/chrome.7z'' ''T:/chrome_1/chrome.7z''
             ''T:/chrome_1/chrome.7z'',
           Call_WriteInstallerResult False UNCOMPRESSION_FAILED
             IDS_INSTALL_UNCOMPRESSION_FAILED_BASE None,
           Call_Delete ''T:/chrome_1'' True,
           Call_UpdateDiffInstallStatus False True UNCOMPRESSION_FAILED])"
  proof -
    have pre: "CheckPreInstallConditions demo_env_patch_fails (Some [9, 0]) False UNKNOWN_STATUS [] =
                 ((True, UNKNOWN_STATUS),
                  [Call_GetChromeVersion True])"
      by (simp add: CheckPreInstallConditions_def demo_env_patch_fails_def demo_env_def demo_constants_def
            Let_def)
    have tmp: "CreateNewTempDirectory demo_env_patch_fails
                 [Call_GetChromeVersion True]
                 ''chrome_'' = Some ''T:/chrome_1''"
      by (simp add: demo_env_patch_fails_def demo_env_def)
    have nz: "status_value (K demo_env_patch_fails) CHROME_NOT_INSTALLED \<noteq> 0"
      by (simp add: demo_env_patch_fails_def demo_env_def demo_constants_def)
    have fails: "unpack_step_fails demo_env_patch_fails (InstallChrome_archive demo_env_patch_fails demo_cmd_line) False
                   (Some [9, 0]) ''T:/chrome_1''
                   (AppendToPath demo_env_patch_fails ''T:/chrome_1'' (kInstallSourceDir (K demo_env_patch_fails)))
                   ([Call_GetChromeVersion True] @
                    [Call_CreateNewTempDirectory ''chrome_''])"
      by (simp add: unpack_step_fails_def code_simps demo_env_patch_fails_def demo_cmd_line_def demo_env_def demo_constants_def)
    show ?thesis
      using fails InstallChrome_unpack_failure [OF sl pre tmp nz fails refl refl]
      by (simp add: unpack_step_fails_def code_simps new_calls_def demo_env_patch_fails_def demo_cmd_line_def demo_env_def demo_constants_def)
  qed
  have final: "unpack_step_fails demo_env_unpack_fails ''D:/chrome.packed.7z'' False None ''T:/chrome_1''
         ''T:/chrome_1/source''
         [Call_GetChromeVersion True,
          Call_GetChromeInstallPath False,
          Call_PathExists ''C:/User/Chrome'',
          Call_CreateNewTempDirectory ''chrome_''] \<and>
       InstallChrome demo_env_unpack_fails demo_cmd_line None [] [] =
         (UNCOMPRESSION_FAILED,
          [Call_GetChromeVersion True,
           Call_GetChromeInstallPath False,
           Call_PathExists ''C:/User/Chrome'',
           Call_CreateNewTempDirectory ''chrome_'',
           Call_LzmaUtil_UnPackArchive ''D:/chrome.packed.7z'' ''T:/chrome_1'',
           Call_PathExists ''T:/chrome_1/chrome.7z'',
           Call_LzmaUtil_UnPackArchive ''T:/chrome_1/chrome.7z'' ''T:/chrome_1/source'',
           Call_WriteInstallerResult False UNCOMPRESSION_FAILED
             IDS_INSTALL_UNCOMPRESSION_FAILED_BASE None,
           Call_Delete ''T:/chrome_1'' True,
           Call_UpdateDiffInstallStatus False False UNCOMPRESSION_FAILED])"
  proof -
    have pre: "CheckPreInstallConditions demo_env_unpack_fails None False UNKNOWN_STATUS [] =
                 ((True, UNKNOWN_STATUS),
                  [Call_GetChromeVersion True,
                   Call_GetChromeInstallPath False,
                   Call_PathExists ''C:/User/Chrome''])"
      by (simp add: CheckPreInstallConditions_def demo_env_unpack_fails_def demo_env_def demo_constants_def
            Let_def)
    have tmp: "CreateNewTempDirectory demo_env_unpack_fails
                 [Call_GetChromeVersion True,
                  Call_GetChromeInstallPath False,
                  Call_PathExists ''C:/User/Chrome'']
                 ''chrome_'' = Some ''T:/chrome_1''"
      by (simp add: demo_env_unpack_fails_def demo_env_def)
    have nz: "status_value (K demo_env_unpack_fails) CHROME_NOT_INSTALLED \<noteq> 0"
      by (simp add: demo_env_unpack_fails_def demo_env_def demo_constants_def)
    have fails: "unpack_step_fails demo_env_unpack_fails (InstallChrome_archive demo_env_unpack_fails demo_cmd_line) False
                   None ''T:/chrome_1''
                   (AppendToPath demo_env_unpack_fails ''T:/chrome_1'' (kInstallSourceDir (K demo_env_unpack_fails)))
                   ([Call_GetChromeVersion True,
                    Call_GetChromeInstallPath False,
                    Call_PathExists ''C:/User/Chrome''] @
                    [Call_CreateNewTempDirectory ''chrome_''])"
      by (simp add: unpack_step_fails_def code_simps demo_env_unpack_fails_def demo_cmd_line_def demo_env_def demo_constants_def)
    show ?thesis
      using fails InstallChrome_unpack_failure [OF sl pre tmp nz fails refl refl]
      by (simp add: unpack_step_fails_def code_simps new_calls_def demo_env_unpack_fails_def demo_cmd_line_def demo_env_def demo_constants_def)
  qed
  show ?thesis
    using first version patch final by blast
qed

text \<open>
  Claim C3, as it is worded, says that a run whose unpack phase fails leaves the
  install location as it was. On the example machine with a leftover directory
  at the install path and a payload that does not decompress, preflight deletes
  that directory and the run then ends in UNCOMPRESSION\_FAILED.
\<close>

theorem InstallChrome_unpack_failure_after_preflight_delete:
  "GetChromeInstallPath demo_env_stale_corrupt [Call_GetChromeVersion True] False =
     ''C:/User/Chrome'' \<and>
   unpack_step_fails demo_env_stale_corrupt ''D:/chrome.packed.7z'' False None ''T:/chrome_1''
     ''T:/chrome_1/source''
     [Call_GetChromeVersion True, Call_GetChromeInstallPath False,
      Call_PathExists ''C:/User/Chrome'', Call_Delete ''C:/User/Chrome'' True,
      Call_CreateNewTempDirectory ''chrome_''] \<and>
   InstallChrome demo_env_stale_corrupt demo_cmd_line None [] [] =
     (UNCOMPRESSION_FAILED,
      [Call_GetChromeVersion True, Call_GetChromeInstallPath False,
       Call_PathExists ''C:/User/Chrome'', Call_Delete ''C:/User/Chrome'' True,
       Call_CreateNewTempDirectory ''chrome_'',
       Call_LzmaUtil_UnPackArchive ''D:/chrome.packed.7z'' ''T:/chrome_1'',
       Call_WriteInstallerResult False UNCOMPRESSION_FAILED
         IDS_INSTALL_UNCOMPRESSION_FAILED_BASE None,
       Call_Delete ''T:/chrome_1'' True,
       Call_UpdateDiffInstallStatus False False UNCOMPRESSION_FAILED]) \<and>
   Call_Delete ''C:/User/Chrome'' True \<in>
     set (snd (InstallChrome demo_env_stale_corrupt demo_cmd_line None [] []))"
  by (simp add: unpack_step_fails_def code_simps demo_env_stale_corrupt_def demo_cmd_line_def
        demo_env_def demo_constants_def)

subsection \<open>Version comparison and the install\<close>

text \<open>
  Claim C7. In a run of InstallChrome that passes preflight and unpacks its
  archive, if the probe of the unpacked payload finds no version, the returned
  status is INVALID\_ARCHIVE, the one result the run writes carries that status,
  and InstallOrUpdateChrome is not called: after the probe the run writes the
  result, makes the call of line 347 and goes through the cleanup block.
\<close>

theorem InstallChrome_invalid_archive:
  assumes sl: "system_level = GetDistroBooleanPreference prefs kSystemLevel False"
    and pre: "CheckPreInstallConditions E installed_version system_level UNKNOWN_STATUS h0 =
           ((True, st), h1)"
    and tmp: "CreateNewTempDirectory E h1 ''chrome_'' = Some temp_path"
    and unp: "UnPackArchive E (InstallChrome_archive E cmd_line) system_level installed_version
           temp_path (AppendToPath E temp_path (kInstallSourceDir (K E))) False
           (h1 @ [Call_CreateNewTempDirectory ''chrome_'']) = ((0, inc), h3)"
    and src: "src_path = AppendToPath E (AppendToPath E temp_path (kInstallSourceDir (K E)))
                (kInstallSourceChromeDir (K E))"
    and ver: "GetVersionFromDir E h3 src_path = None"
    and r: "r = InstallChrome E cmd_line installed_version prefs h0"
  shows "fst r = INVALID_ARCHIVE \<and>
         filter writes_result (new_calls h0 (snd r)) =
           [Call_WriteInstallerResult system_level INVALID_ARCHIVE
              IDS_INSTALL_INVALID_ARCHIVE_BASE None] \<and>
         filter mutates_install (new_calls h0 (snd r)) = [] \<and>
         snd r =
           snd (InstallChrome_cleanup E cmd_line system_level temp_path inc INVALID_ARCHIVE
                  (h3 @ [Call_GetVersionFromDir src_path,
                         Call_WriteInstallerResult system_level INVALID_ARCHIVE
                           IDS_INSTALL_INVALID_ARCHIVE_BASE None,
                         Call_LaunchUserExperiment INVALID_ARCHIVE None system_level]))"
proof -
  let ?w = "Call_WriteInstallerResult system_level INVALID_ARCHIVE
              IDS_INSTALL_INVALID_ARCHIVE_BASE None"
  let ?h4 = "h3 @ [Call_GetVersionFromDir src_path, ?w,
                   Call_LaunchUserExperiment INVALID_ARCHIVE None system_level]"
  from CheckPreInstallConditions_passes [OF pre] obtain t1 where
    t1: "h1 = h0 @ t1" "filter writes_result t1 = []" "filter mutates_install t1 = []"
    by auto
  from UnPackArchive_calls [OF unp] obtain t3 where
    t3: "h3 = (h1 @ [Call_CreateNewTempDirectory ''chrome_'']) @ t3"
        "filter writes_result t3 = []" "filter mutates_install t3 = []"
    by auto
  have u: "InstallChrome_unpacked E cmd_line installed_version prefs system_level temp_path
             (AppendToPath E temp_path (kInstallSourceDir (K E))) h3 = (INVALID_ARCHIVE, ?h4)"
    using src ver by (simp add: InstallChrome_unpacked_def)
  obtain status' h5 where
    cl: "InstallChrome_cleanup E cmd_line system_level temp_path inc INVALID_ARCHIVE ?h4 =
           (status', h5)"
    by (metis prod.exhaust)
  from InstallChrome_cleanup_calls [OF cl] obtain t5 where
    t5: "h5 = ?h4 @ t5" "filter writes_result t5 = []" "filter mutates_install t5 = []"
        "status' = INVALID_ARCHIVE"
    by auto
  have "r = (INVALID_ARCHIVE, h5)"
    using InstallChrome_past_temp [OF sl pre tmp, of cmd_line]
      InstallChrome_decide_unpacked [OF unp, of cmd_line prefs] u cl r t5(4)
    by simp
  then show ?thesis
    using t1 t3 t5 cl by (simp add: new_calls_def)
qed

theorem InstallChrome_invalid_archive_witness:
  "CheckPreInstallConditions demo_env_no_version None False UNKNOWN_STATUS [] =
     ((True, UNKNOWN_STATUS),
      [Call_GetChromeVersion True, Call_GetChromeInstallPath False,
       Call_PathExists ''C:/User/Chrome'']) \<and>
   GetVersionFromDir demo_env_no_version
     [Call_GetChromeVersion True, Call_GetChromeInstallPath False,
      Call_PathExists ''C:/User/Chrome'', Call_CreateNewTempDirectory ''chrome_'',
      Call_LzmaUtil_UnPackArchive ''D:/chrome.packed.7z'' ''T:/chrome_1'',
      Call_PathExists ''T:/chrome_1/chrome.7z'',
      Call_LzmaUtil_UnPackArchive ''T:/chrome_1/chrome.7z'' ''T:/chrome_1/source'']
     ''T:/chrome_1/source/Chrome-bin'' = None \<and>
   InstallChrome demo_env_no_version demo_cmd_line None [] [] =
     (INVALID_ARCHIVE,
      [Call_GetChromeVersion True, Call_GetChromeInstallPath False,
       Call_PathExists ''C:/User/Chrome'', Call_CreateNewTempDirectory ''chrome_'',
       Call_LzmaUtil_UnPackArchive ''D:/chrome.packed.7z'' ''T:/chrome_1'',
       Call_PathExists ''T:/chrome_1/chrome.7z'',
       Call_LzmaUtil_UnPackArchive ''T:/chrome_1/chrome.7z'' ''T:/chrome_1/source'',
       Call_GetVersionFromDir ''T:/chrome_1/source/Chrome-bin'',
       Call_WriteInstallerResult False INVALID_ARCHIVE IDS_INSTALL_INVALID_ARCHIVE_BASE None,
       Call_LaunchUserExperiment INVALID_ARCHIVE None False,
       Call_Delete ''T:/chrome_1'' True,
       Call_UpdateDiffInstallStatus False False INVALID_ARCHIVE]) \<and>
   filter mutates_install
     (new_calls [] (snd (InstallChrome demo_env_no_version demo_cmd_line None [] []))) = []"
proof -
  let ?h1 = "[Call_GetChromeVersion True, Call_GetChromeInstallPath False,
             Call_PathExists ''C:/User/Chrome'']"
  let ?h3 = "[Call_GetChromeVersion True, Call_GetChromeInstallPath False,
             Call_PathExists ''C:/User/Chrome'', Call_CreateNewTempDirectory ''chrome_'',
             Call_LzmaUtil_UnPackArchive ''D:/chrome.packed.7z'' ''T:/chrome_1'',
             Call_PathExists ''T:/chrome_1/chrome.7z'',
             Call_LzmaUtil_UnPackArchive ''T:/chrome_1/chrome.7z'' ''T:/chrome_1/source'']"
  have sl: "False = GetDistroBooleanPreference [] kSystemLevel False"
    by (simp add: GetDistroBooleanPreference_def)
  have pre: "CheckPreInstallConditions demo_env_no_version None False UNKNOWN_STATUS [] =
               ((True, UNKNOWN_STATUS), ?h1)"
    by (simp add: CheckPreInstallConditions_def demo_env_no_version_def demo_env_def
          demo_constants_def Let_def)
  have tmp: "CreateNewTempDirectory demo_env_no_version ?h1 ''chrome_'' = Some ''T:/chrome_1''"
    by (simp add: demo_env_no_version_def demo_env_def)
  have unp: "UnPackArchive demo_env_no_version
               (InstallChrome_archive demo_env_no_version demo_cmd_line) False None ''T:/chrome_1''
               (AppendToPath demo_env_no_version ''T:/chrome_1''
                  (kInstallSourceDir (K demo_env_no_version)))
               False (?h1 @ [Call_CreateNewTempDirectory ''chrome_'']) = ((0, False), ?h3)"
    by (simp add: code_simps demo_env_no_version_def demo_cmd_line_def demo_env_def
          demo_constants_def)
  have src: "''T:/chrome_1/source/Chrome-bin'' =
               AppendToPath demo_env_no_version
                 (AppendToPath demo_env_no_version ''T:/chrome_1''
                    (kInstallSourceDir (K demo_env_no_version)))
                 (kInstallSourceChromeDir (K demo_env_no_version))"
    by (simp add: demo_env_no_version_def demo_env_def demo_constants_def)
  have ver: "GetVersionFromDir demo_env_no_version ?h3 ''T:/chrome_1/source/Chrome-bin'' = None"
    by (simp add: demo_env_no_version_def demo_env_def)
  show ?thesis
    using pre ver InstallChrome_invalid_archive [OF sl pre tmp unp src ver refl]
    by (simp add: code_simps new_calls_def demo_env_no_version_def demo_cmd_line_def
          demo_env_def demo_constants_def)
qed



text \<open>
  Claim C9. If InstallChrome returns FIRST\_INSTALL\_SUCCESS, then the run
  launches Chrome exactly when the install is user-level and the do-not-launch
  preference is absent or false, and it launches nothing else. A system-level
  run launches nothing, whatever its status and whatever the preference.
\<close>

theorem InstallChrome_launch_after_first_install:
  assumes sl: "system_level = GetDistroBooleanPreference prefs kSystemLevel False"
    and dnl: "do_not_launch_chrome = GetDistroBooleanPreference prefs kDoNotLaunchChrome False"
    and r: "r = InstallChrome E cmd_line installed_version prefs h0"
  shows "(fst r = FIRST_INSTALL_SUCCESS \<longrightarrow>
            filter launches (new_calls h0 (snd r)) =
              (if \<not> system_level \<and> \<not> do_not_launch_chrome then [Call_LaunchChrome False] else [])) \<and>
         (system_level \<longrightarrow> filter launches (new_calls h0 (snd r)) = [])"
proof -
  obtain ok st h1 where
    pre: "CheckPreInstallConditions E installed_version system_level UNKNOWN_STATUS h0 = ((ok, st), h1)"
    by (metis prod.exhaust)
  from CheckPreInstallConditions_calls [OF pre] obtain t1 where
    t1: "h1 = h0 @ t1" "system_level \<longrightarrow> filter launches t1 = []"
        "\<not> ok \<longrightarrow> st \<noteq> FIRST_INSTALL_SUCCESS" "ok \<longrightarrow> filter launches t1 = []"
    by auto
  show ?thesis
  proof (cases ok)
    case False
    then have "r = (st, h1)"
      using pre r sl by (simp add: InstallChrome_def)
    then show ?thesis
      using t1 False by (simp add: new_calls_def)
  next
    case True
    note ok = this
    show ?thesis
    proof (cases "CreateNewTempDirectory E h1 ''chrome_''")
      case None
      then have "r = (TEMP_DIR_FAILED,
                      h1 @ [Call_CreateNewTempDirectory ''chrome_'',
                            Call_WriteInstallerResult system_level TEMP_DIR_FAILED
                              IDS_INSTALL_TEMP_DIR_FAILED_BASE None])"
        using pre r sl ok by (simp add: InstallChrome_def Let_def)
      then show ?thesis
        using t1 True
        by (simp add: new_calls_def)
    next
      case (Some temp_path)
      obtain d inc h3 where
        dec: "InstallChrome_decide E cmd_line installed_version prefs system_level
                (InstallChrome_archive E cmd_line) temp_path
                (AppendToPath E temp_path (kInstallSourceDir (K E)))
                (h1 @ [Call_CreateNewTempDirectory ''chrome_'']) = ((d, inc), h3)"
        by (metis prod.exhaust)
      from InstallChrome_decide_calls [OF dec] obtain t3 where
        t3: "h3 = (h1 @ [Call_CreateNewTempDirectory ''chrome_'']) @ t3"
            "filter launches t3 =
               (if d = FIRST_INSTALL_SUCCESS \<and> \<not> system_level \<and> \<not> do_not_launch_chrome
                then [Call_LaunchChrome system_level] else [])"
        using dnl by auto
      obtain status' h4 where
        cl: "InstallChrome_cleanup E cmd_line system_level temp_path inc d h3 = (status', h4)"
        by (metis prod.exhaust)
      from InstallChrome_cleanup_calls [OF cl] obtain t4 where
        t4: "h4 = h3 @ t4" "status' = d" "filter launches t4 = []"
        by auto
      have "r = (d, h4)"
        using pre r sl ok Some dec cl t4(2) by (simp add: InstallChrome_def Let_def)
      then show ?thesis
        using t1 t3 t4 ok by (auto simp: new_calls_def)
    qed
  qed
qed

theorem InstallChrome_launch_after_first_install_witness:
  "fst (InstallChrome demo_env demo_cmd_line None [] []) = FIRST_INSTALL_SUCCESS \<and>
   filter launches (new_calls [] (snd (InstallChrome demo_env demo_cmd_line None [] []))) =
     [Call_LaunchChrome False] \<and>
   fst (InstallChrome demo_env demo_cmd_line None [(kSystemLevel, True)] []) =
     FIRST_INSTALL_SUCCESS \<and>
   filter launches
     (new_calls [] (snd (InstallChrome demo_env demo_cmd_line None [(kSystemLevel, True)] []))) = [] \<and>
   fst (InstallChrome demo_env demo_cmd_line None [(kDoNotLaunchChrome, True)] []) =
     FIRST_INSTALL_SUCCESS \<and>
   filter launches
     (new_calls [] (snd (InstallChrome demo_env demo_cmd_line None [(kDoNotLaunchChrome, True)] [])))
     = []"
  using
    InstallChrome_launch_after_first_install [OF refl refl refl,
      where prefs = "[]" and E = demo_env and cmd_line = demo_cmd_line
        and installed_version = None and ?h0.0 = "[]"]
    InstallChrome_launch_after_first_install [OF refl refl refl,
      where prefs = "[(kSystemLevel, True)]" and E = demo_env and cmd_line = demo_cmd_line
        and installed_version = None and ?h0.0 = "[]"]
    InstallChrome_launch_after_first_install [OF refl refl refl,
      where prefs = "[(kDoNotLaunchChrome, True)]" and E = demo_env and cmd_line = demo_cmd_line
        and installed_version = None and ?h0.0 = "[]"]
  by (simp add: code_simps new_calls_def demo_cmd_line_def demo_env_def demo_constants_def)

subsection \<open>Cleanup\<close>

text \<open>
  Claim C6. The cleanup block of InstallChrome returns the status it is given.
  If the temporary directory cannot be deleted, the directory is handed to
  ScheduleDirectoryForDeletion; if the preferences file named on the command line
  cannot be deleted, that file is handed to it as well. A run of InstallChrome
  whose status has been decided as \<open>status\<close> returns \<open>status\<close>, with the trace the
  cleanup block leaves.
\<close>

theorem InstallChrome_cleanup_keeps_status:
  assumes c: "c = InstallChrome_cleanup E cmd_line system_level temp_path inc status h"
    and h': "h' = h @ [Call_Delete temp_path True]"
    and pp: "prefs_path = GetSwitchValue cmd_line kInstallerData"
  shows "fst c = status \<and>
         (\<not> Delete E h temp_path True \<longrightarrow>
            Call_ScheduleDirectoryForDeletion temp_path \<in> set (new_calls h (snd c))) \<and>
         (HasSwitch cmd_line kInstallerData \<and> \<not> Delete E h' prefs_path True \<longrightarrow>
            Call_ScheduleDirectoryForDeletion prefs_path \<in> set (new_calls h (snd c))) \<and>
         (system_level = GetDistroBooleanPreference prefs kSystemLevel False \<and>
          CheckPreInstallConditions E installed_version system_level UNKNOWN_STATUS h0 =
            ((True, st), h1) \<and>
          CreateNewTempDirectory E h1 ''chrome_'' = Some temp_path \<and>
          InstallChrome_decide E cmd_line installed_version prefs system_level
            (InstallChrome_archive E cmd_line) temp_path
            (AppendToPath E temp_path (kInstallSourceDir (K E)))
            (h1 @ [Call_CreateNewTempDirectory ''chrome_'']) = ((status, inc), h) \<longrightarrow>
            InstallChrome E cmd_line installed_version prefs h0 = (status, snd c))"
proof -
  have block: "fst c = status \<and>
         (\<not> Delete E h temp_path True \<longrightarrow>
            Call_ScheduleDirectoryForDeletion temp_path \<in> set (new_calls h (snd c))) \<and>
         (HasSwitch cmd_line kInstallerData \<and> \<not> Delete E h' prefs_path True \<longrightarrow>
            Call_ScheduleDirectoryForDeletion prefs_path \<in> set (new_calls h (snd c)))"
    using c h' pp by (auto simp: InstallChrome_cleanup_def new_calls_def Let_def)
  have run: "InstallChrome E cmd_line installed_version prefs h0 = (status, snd c)"
    if sl: "system_level = GetDistroBooleanPreference prefs kSystemLevel False"
      and pre: "CheckPreInstallConditions E installed_version system_level UNKNOWN_STATUS h0 =
                  ((True, st), h1)"
      and tmp: "CreateNewTempDirectory E h1 ''chrome_'' = Some temp_path"
      and dec: "InstallChrome_decide E cmd_line installed_version prefs system_level
                  (InstallChrome_archive E cmd_line) temp_path
                  (AppendToPath E temp_path (kInstallSourceDir (K E)))
                  (h1 @ [Call_CreateNewTempDirectory ''chrome_'']) = ((status, inc), h)"
    using InstallChrome_past_temp [OF sl pre tmp dec] c
      InstallChrome_cleanup_status [of E cmd_line system_level temp_path inc status h]
    by simp
  show ?thesis
    using block run by blast
qed

theorem InstallChrome_cleanup_keeps_status_witness:
  "\<not> Delete demo_env_locked_temp
       [Call_LaunchUserExperiment FIRST_INSTALL_SUCCESS (Some [10, 0]) False] ''T:/chrome_1'' True \<and>
   HasSwitch demo_cmd_line_prefs kInstallerData \<and>
   \<not> Delete demo_env_locked_temp
       [Call_LaunchUserExperiment FIRST_INSTALL_SUCCESS (Some [10, 0]) False,
        Call_Delete ''T:/chrome_1'' True] ''D:/master_preferences'' True \<and>
   InstallChrome_cleanup demo_env_locked_temp demo_cmd_line_prefs False ''T:/chrome_1'' False
     FIRST_INSTALL_SUCCESS [Call_LaunchUserExperiment FIRST_INSTALL_SUCCESS (Some [10, 0]) False] =
     (FIRST_INSTALL_SUCCESS,
      [Call_LaunchUserExperiment FIRST_INSTALL_SUCCESS (Some [10, 0]) False,
       Call_Delete ''T:/chrome_1'' True, Call_Delete ''D:/master_preferences'' True,
       Call_ScheduleDirectoryForDeletion ''T:/chrome_1'',
       Call_ScheduleDirectoryForDeletion ''D:/master_preferences'',
       Call_UpdateDiffInstallStatus False False FIRST_INSTALL_SUCCESS]) \<and>
   fst (InstallChrome demo_env_locked_temp demo_cmd_line_prefs None [] []) =
     FIRST_INSTALL_SUCCESS \<and>
   filter (\<lambda>c. c = Call_ScheduleDirectoryForDeletion ''T:/chrome_1'' \<or>
               c = Call_ScheduleDirectoryForDeletion ''D:/master_preferences'')
     (snd (InstallChrome demo_env_locked_temp demo_cmd_line_prefs None [] [])) =
     [Call_ScheduleDirectoryForDeletion ''T:/chrome_1'',
      Call_ScheduleDirectoryForDeletion ''D:/master_preferences'']"
proof -
  let ?h1 = "[Call_GetChromeVersion True, Call_GetChromeInstallPath False,
             Call_PathExists ''C:/User/Chrome'']"
  let ?h3 = "[Call_GetChromeVersion True, Call_GetChromeInstallPath False,
   Call_PathExists ''C:/User/Chrome'',
   Call_CreateNewTempDirectory ''chrome_'',
   Call_LzmaUtil_UnPackArchive ''D:/chrome.packed.7z'' ''T:/chrome_1'',
   Call_PathExists ''T:/chrome_1/chrome.7z'',
   Call_LzmaUtil_UnPackArchive ''T:/chrome_1/chrome.7z'' ''T:/chrome_1/source'',
   Call_GetVersionFromDir ''T:/chrome_1/source/Chrome-bin'',
   Call_InstallOrUpdateChrome ''D:/setup.exe'' ''T:/chrome_1/chrome.7z''
    ''T:/chrome_1'' ''D:/master_preferences'' [] [10, 0] None,
   Call_GetChromeInstallPath False,
   Call_WriteInstallerResult False FIRST_INSTALL_SUCCESS ID_ZERO
    (Some (quote @ ''C:/User/Chrome/chrome.exe'' @ quote)),
   Call_LaunchChrome False,
   Call_LaunchUserExperiment FIRST_INSTALL_SUCCESS (Some [10, 0]) False]"
  have sl: "False = GetDistroBooleanPreference [] kSystemLevel False"
    by (simp add: GetDistroBooleanPreference_def)
  have pre: "CheckPreInstallConditions demo_env_locked_temp None False UNKNOWN_STATUS [] =
               ((True, UNKNOWN_STATUS), ?h1)"
    by (simp add: CheckPreInstallConditions_def demo_env_locked_temp_def
          demo_cmd_line_prefs_def demo_env_def demo_constants_def Let_def)
  have tmp: "CreateNewTempDirectory demo_env_locked_temp ?h1 ''chrome_'' = Some ''T:/chrome_1''"
    by (simp add: demo_env_locked_temp_def demo_cmd_line_prefs_def demo_env_def demo_constants_def)
  have dec: "InstallChrome_decide demo_env_locked_temp demo_cmd_line_prefs None [] False
               (InstallChrome_archive demo_env_locked_temp demo_cmd_line_prefs) ''T:/chrome_1''
               (AppendToPath demo_env_locked_temp ''T:/chrome_1''
                  (kInstallSourceDir (K demo_env_locked_temp)))
               (?h1 @ [Call_CreateNewTempDirectory ''chrome_'']) =
             ((FIRST_INSTALL_SUCCESS, False), ?h3)"
    by (simp add: code_simps new_calls_def demo_env_locked_temp_def demo_cmd_line_prefs_def
          demo_env_def demo_constants_def)
  show ?thesis
    using
      InstallChrome_cleanup_keeps_status [OF refl refl refl,
        where E = demo_env_locked_temp and cmd_line = demo_cmd_line_prefs
          and system_level = False and temp_path = "''T:/chrome_1''" and inc = False
          and status = FIRST_INSTALL_SUCCESS
          and h = "[Call_LaunchUserExperiment FIRST_INSTALL_SUCCESS (Some [10, 0]) False]"]
      InstallChrome_cleanup_keeps_status [OF refl refl refl,
        where E = demo_env_locked_temp and cmd_line = demo_cmd_line_prefs
          and system_level = False and temp_path = "''T:/chrome_1''" and inc = False
          and status = FIRST_INSTALL_SUCCESS and h = ?h3 and prefs = "[]"
          and installed_version = None and ?h0.0 = "[]" and st = UNKNOWN_STATUS and ?h1.0 = ?h1]
      sl pre tmp dec
    by (simp add: code_simps new_calls_def demo_env_locked_temp_def demo_cmd_line_prefs_def
          demo_env_def demo_constants_def)
qed

end
